theory Spec2Isabelle
  imports Main "HOL-Library.Sublist"
begin

section \<open>Strings and dictionaries of the two scripts\<close>

text \<open>
  Strings are ASCII strings. \<open>substr_in sub s\<close> is Python's \<^verbatim>\<open>sub in s\<close> on strings,
  \<open>lower\<close> is \<^verbatim>\<open>str.lower()\<close> on ASCII letters, \<open>str_of_int\<close> is the decimal text an
  f-string gives an integer, and \<open>tail_slice n xs\<close> is the slice \<^verbatim>\<open>xs[-n:]\<close> for \<open>n > 0\<close>.
\<close>

fun substr_in :: "string \<Rightarrow> string \<Rightarrow> bool" where
  "substr_in sub [] = (sub = [])"
| "substr_in sub (c # cs) = (prefix sub (c # cs) \<or> substr_in sub cs)"

definition lower_char :: "char \<Rightarrow> char" where
  "lower_char c =
     (case map_of (zip ''ABCDEFGHIJKLMNOPQRSTUVWXYZ'' ''abcdefghijklmnopqrstuvwxyz'') c of
        Some d \<Rightarrow> d
      | None \<Rightarrow> c)"

definition lower :: "string \<Rightarrow> string" where
  "lower s = map lower_char s"

definition digit_char :: "nat \<Rightarrow> char" where
  "digit_char d =
     (if d = 0 then CHR ''0'' else if d = 1 then CHR ''1'' else if d = 2 then CHR ''2''
      else if d = 3 then CHR ''3'' else if d = 4 then CHR ''4'' else if d = 5 then CHR ''5''
      else if d = 6 then CHR ''6'' else if d = 7 then CHR ''7'' else if d = 8 then CHR ''8''
      else CHR ''9'')"

fun digits :: "nat \<Rightarrow> string" where
  "digits n =
     (if n < 10 then [digit_char n] else digits (n div 10) @ [digit_char (n mod 10)])"

declare digits.simps [simp del]

definition str_of_int :: "int \<Rightarrow> string" where
  "str_of_int i = (if i < 0 then CHR ''-'' # digits (nat (- i)) else digits (nat i))"

definition tail_slice :: "nat \<Rightarrow> 'a list \<Rightarrow> 'a list" where
  "tail_slice n xs = drop (length xs - n) xs"

text \<open>
  A result is a Python dict literal: an association list in insertion order, which is
  also the order of the keys in the JSON document written at the end of a run.
  \<open>JTime k\<close> stands for the text of the \<open>k\<close>-th reading of \<^verbatim>\<open>datetime.now().isoformat()\<close>.
\<close>

datatype jvalue = JStr string | JInt int | JBool bool | JStrs "string list" | JTime nat

type_synonym pydict = "(string \<times> jvalue) list"

definition dict_get :: "pydict \<Rightarrow> string \<Rightarrow> jvalue option" where
  "dict_get d k = map_of d k"

definition dict_keys :: "pydict \<Rightarrow> string list" where
  "dict_keys d = map fst d"

text \<open>The truth value of \<^verbatim>\<open>r.get("success")\<close>.\<close>

definition get_success :: "pydict \<Rightarrow> bool" where
  "get_success r = (dict_get r ''success'' = Some (JBool True))"

text \<open>\<^verbatim>\<open>r.get("console_logs", [])\<close>.\<close>

definition get_console_logs :: "pydict \<Rightarrow> string list" where
  "get_console_logs r = (case dict_get r ''console_logs'' of Some (JStrs ls) \<Rightarrow> ls | _ \<Rightarrow> [])"

section \<open>The browser and the clock as the scripts see them\<close>

text \<open>
  Both scripts drive a browser through awaited library calls. What the browser does
  during one call of \<^verbatim>\<open>test_strategy\<close> (or \<^verbatim>\<open>test_strategy_with_learning\<close>) is a value of
  \<open>probe_env\<close>: for every awaited call whether it raises (\<open>Some msg\<close> or \<open>Inl msg\<close>, with
  \<open>msg\<close> the exception's \<^verbatim>\<open>str\<close>) or what it returns. The run as a whole receives a function
  from the number of the call to its \<open>probe_env\<close>. Calls of \<^verbatim>\<open>print\<close> are left out and
  \<^verbatim>\<open>asyncio.sleep\<close> does not raise. A run is modelled from the first strategy to the
  last: the launch and the closing of the browser around the loop and the writing of the
  JSON document after it are not part of the model.
\<close>

datatype debug_probe =
    DebugRaises string
  | DebugAbsent
  | DebugPresent "string option"

record poll_env =
  query_r :: "string option"
  inputs_r :: "string + (string + string) list"
  content_r :: "string + string"

record probe_env =
  new_context_r :: "string option"
  new_page_r :: "string option"
  cache_buster :: int
  goto_r :: "string option"
  wait_selector_r :: "string option"
  debug_r :: debug_probe
  logs_before_click :: "string list"
  click_r :: "string option"
  logs_after_click :: "string list"
  url_after_click :: string
  container_r :: "string + bool"
  iframe_r :: "string + bool"
  iframe_src_r :: "string option"
  frame_accessible :: bool
  load_state_r :: "string option"
  polls :: "nat \<Rightarrow> poll_env"
  logs_monitor :: "string list"
  screenshot_r :: "string option"
  shot_time :: int
  url_at_result :: string
  retry_close_r :: "string option"
  close_r :: "string option"

text \<open>
  The fields of \<open>probe_env\<close>, in the order of the calls:
  \<^item> \<open>new_context_r\<close>, \<open>new_page_r\<close>: \<^verbatim>\<open>browser.new_context()\<close> and \<^verbatim>\<open>context.new_page()\<close>,
    both before the \<^verbatim>\<open>try\<close>;
  \<^item> \<open>cache_buster\<close>: \<^verbatim>\<open>int(time.time())\<close> when the adaptive script builds its URL;
  \<^item> \<open>goto_r\<close>, \<open>wait_selector_r\<close>, \<open>click_r\<close>, \<open>load_state_r\<close>, \<open>screenshot_r\<close>: the exception
    of \<^verbatim>\<open>page.goto\<close>, \<^verbatim>\<open>page.wait_for_selector\<close>, \<^verbatim>\<open>page.click\<close>, \<^verbatim>\<open>page.wait_for_load_state\<close>
    and \<^verbatim>\<open>page.screenshot\<close>, if any;
  \<^item> \<open>debug_r\<close>: the query of \<^verbatim>\<open>#debug-output\<close> and its \<^verbatim>\<open>text_content()\<close>;
  \<^item> \<open>logs_before_click\<close>, \<open>logs_after_click\<close>, \<open>logs_monitor\<close>: the console lines
    \<^verbatim>\<open>[type] text\<close> the page emits before the pre-click check, from there to the reading
    of the URL, and after that (or up to the exception that cuts the phase short);
  \<^item> \<open>url_after_click\<close>, \<open>url_at_result\<close>: \<^verbatim>\<open>page.url\<close> after the wait that follows the click,
    and when the basic script builds its result;
  \<^item> \<open>container_r\<close>, \<open>iframe_r\<close>, \<open>iframe_src_r\<close>, \<open>frame_accessible\<close>: the basic script's look
    at the iframe overlay (\<open>frame_accessible\<close>: \<^verbatim>\<open>content_frame()\<close> returned a frame; what
    follows is guarded by an inner \<^verbatim>\<open>try\<close> and only prints);
  \<^item> \<open>polls i\<close>: iteration \<open>i\<close> of the monitoring loop. \<open>query_r\<close> is the first exception
    of an unguarded \<^verbatim>\<open>query_selector_all\<close> of the basic loop; \<open>inputs_r\<close> is the adaptive
    loop's query for inputs with each element's \<^verbatim>\<open>input_value()\<close>, \<open>content_r\<close> its
    \<^verbatim>\<open>page.content()\<close>;
  \<^item> \<open>shot_time\<close>: \<^verbatim>\<open>int(time.time())\<close> when the screenshot path is built;
  \<^item> \<open>retry_close_r\<close>, \<open>close_r\<close>: the exception of \<^verbatim>\<open>await context.close()\<close>, if any, where
    the adaptive script closes the context before its retry (inside the \<^verbatim>\<open>try\<close>), and in
    the \<^verbatim>\<open>finally\<close> of either script (outside every handler).
\<close>

datatype sleep_site =
    AfterSelector | CacheWait | AfterClick | IframeWait | FrameWait | RetryWait | Poll | InterStrategy

datatype event =
    TestStrategy string
  | TestAttempt string int
  | NewContext nat
  | CloseContext nat
  | Sleep sleep_site nat
  | Screenshot string "bool option"

text \<open>
  The trace records what a run does to the world: each entry into the test function
  (the line it prints first), each browsing context created and each \<^verbatim>\<open>context.close()\<close>
  that returns (contexts are numbered by the call that created them; a close that raises
  is not recorded as having closed its context), each \<^verbatim>\<open>asyncio.sleep\<close> with the
  place it stands at, and each screenshot written, with its path and the \<^verbatim>\<open>full_page\<close>
  argument (\<open>None\<close> when the call does not pass it).
\<close>

record tester =
  results :: "pydict list"
  trace :: "event list"
  ticks :: nat
  probes :: nat

record insight_entry =
  timestamp :: nat
  insight :: string

record adaptive_tester = tester +
  learned_insights :: "insight_entry list"

definition emit :: "event \<Rightarrow> 'a tester_scheme \<Rightarrow> 'a tester_scheme" where
  "emit ev st = st\<lparr>trace := trace st @ [ev]\<rparr>"

definition base_url :: string where
  "base_url = ''https://blinds123.github.io/simpleswap-realtime-test''"

definition strategies :: "string list" where
  "strategies = [''basic'', ''withProvider'', ''buyInterface'', ''fixedRate'',
     ''withWallet'', ''buySell'', ''allLocks'', ''altCurrency'', ''directMercuryo'', ''iframe'']"

definition none_type_error :: string where
  "none_type_error = CHR 0x27 # ''NoneType'' @ CHR 0x27 # '' object is not subscriptable''"

text \<open>
  The debug element: the query or \<^verbatim>\<open>text_content()\<close> raises, the element is absent, or
  it is present; slicing a \<^verbatim>\<open>None\<close> text raises a TypeError.
\<close>

fun debug_check :: "debug_probe \<Rightarrow> string + bool" where
  "debug_check (DebugRaises x) = Inl x"
| "debug_check DebugAbsent = Inr False"
| "debug_check (DebugPresent None) = Inl none_type_error"
| "debug_check (DebugPresent (Some t)) = Inr True"

definition screenshot_path :: "string \<Rightarrow> int \<Rightarrow> string" where
  "screenshot_path strategy t = ''/tmp/simpleswap_'' @ strategy @ ''_'' @ str_of_int t @ ''.png''"

text \<open>
  The \<^verbatim>\<open>finally\<close> of either test function, \<^verbatim>\<open>await context.close()\<close>, entered with the state
  the \<^verbatim>\<open>try\<close> and its \<^verbatim>\<open>except\<close> have left. It stands outside every handler: when the close
  raises, the exception leaves the test function, whatever was appended before.
\<close>

definition finally_close :: "probe_env \<Rightarrow> nat \<Rightarrow> 'a tester_scheme \<Rightarrow> string option \<times> 'a tester_scheme" where
  "finally_close e c st =
     (case close_r e of
        Some x \<Rightarrow> (Some x, st)
      | None \<Rightarrow> (None, emit (CloseContext c) st))"

section \<open>The basic script (test-simpleswap.py)\<close>

fun poll_basic :: "(nat \<Rightarrow> poll_env) \<Rightarrow> nat list \<Rightarrow> 'a tester_scheme \<Rightarrow> string option \<times> 'a tester_scheme" where
  "poll_basic ps [] st = (None, st)"
| "poll_basic ps (i # ks) st =
     (let st1 = emit (Sleep Poll 1) st in
      case query_r (ps i) of
        Some x \<Rightarrow> (Some x, st1)
      | None \<Rightarrow> poll_basic ps ks st1)"

definition monitor_simpleswap_page :: "probe_env \<Rightarrow> string \<Rightarrow> 'a tester_scheme \<Rightarrow> string option \<times> 'a tester_scheme" where
  "monitor_simpleswap_page e strategy st =
     (case poll_basic (polls e) [0..<10] st of
        (Some x, st1) \<Rightarrow> (Some x, st1)
      | (None, st1) \<Rightarrow>
          (case screenshot_r e of
             Some x \<Rightarrow> (Some x, st1)
           | None \<Rightarrow> (None, emit (Screenshot (screenshot_path strategy (shot_time e)) None) st1)))"

definition iframe_branch :: "probe_env \<Rightarrow> 'a tester_scheme \<Rightarrow> string option \<times> 'a tester_scheme" where
  "iframe_branch e st =
     (let st1 = emit (Sleep IframeWait 3) st in
      case container_r e of
        Inl x \<Rightarrow> (Some x, st1)
      | Inr False \<Rightarrow> (None, st1)
      | Inr True \<Rightarrow>
          (case iframe_r e of
             Inl x \<Rightarrow> (Some x, st1)
           | Inr False \<Rightarrow> (None, st1)
           | Inr True \<Rightarrow>
               (case iframe_src_r e of
                  Some x \<Rightarrow> (Some x, st1)
                | None \<Rightarrow>
                    (None, if frame_accessible e then emit (Sleep FrameWait 5) st1 else st1))))"

definition redirect_branch :: "probe_env \<Rightarrow> string \<Rightarrow> 'a tester_scheme \<Rightarrow> string option \<times> 'a tester_scheme" where
  "redirect_branch e strategy st =
     (let st1 = emit (Sleep AfterClick 2) st in
      if substr_in ''simpleswap.io'' (url_after_click e) then
        (case load_state_r e of
           Some x \<Rightarrow> (Some x, st1)
         | None \<Rightarrow> monitor_simpleswap_page e strategy st1)
      else (None, st1))"

definition basic_result :: "string \<Rightarrow> nat \<Rightarrow> string \<Rightarrow> string list \<Rightarrow> pydict" where
  "basic_result strategy t url console_logs =
     [(''strategy'', JStr strategy),
      (''timestamp'', JTime t),
      (''success'', JBool (substr_in ''simpleswap.io'' url \<or> strategy = ''iframe'')),
      (''final_url'', JStr url),
      (''console_logs'', JStrs (tail_slice 10 console_logs)),
      (''notes'', JStrs [])]"

definition basic_exception_result :: "string \<Rightarrow> nat \<Rightarrow> string \<Rightarrow> pydict" where
  "basic_exception_result strategy t x =
     [(''strategy'', JStr strategy),
      (''timestamp'', JTime t),
      (''success'', JBool False),
      (''error'', JStr x),
      (''console_logs'', JStrs []),
      (''notes'', JStrs [''Exception occurred during testing''])]"

definition append_result :: "pydict \<Rightarrow> 'a tester_scheme \<Rightarrow> 'a tester_scheme" where
  "append_result r st = st\<lparr>results := results st @ [r]\<rparr>"

definition read_clock :: "'a tester_scheme \<Rightarrow> 'a tester_scheme" where
  "read_clock st = st\<lparr>ticks := Suc (ticks st)\<rparr>"

text \<open>
  The body of the \<^verbatim>\<open>try\<close> of \<^verbatim>\<open>test_strategy\<close> up to the comment \<^verbatim>\<open># Collect results\<close>:
  \<open>Some x\<close> when it raises \<open>x\<close>.
\<close>

definition basic_steps :: "probe_env \<Rightarrow> string \<Rightarrow> 'a tester_scheme \<Rightarrow> string option \<times> 'a tester_scheme" where
  "basic_steps e strategy st =
     (case goto_r e of
        Some x \<Rightarrow> (Some x, st)
      | None \<Rightarrow>
     (case wait_selector_r e of
        Some x \<Rightarrow> (Some x, st)
      | None \<Rightarrow>
     (let st1 = emit (Sleep AfterSelector 2) st in
      case debug_check (debug_r e) of
        Inl x \<Rightarrow> (Some x, st1)
      | Inr _ \<Rightarrow>
     (case click_r e of
        Some x \<Rightarrow> (Some x, st1)
      | None \<Rightarrow>
     (if strategy = ''iframe'' then iframe_branch e st1 else redirect_branch e strategy st1)))))"

text \<open>
  \<^verbatim>\<open>test_strategy\<close>: the context and the page are created before the \<^verbatim>\<open>try\<close>, so their
  exceptions leave the function; a body that ends normally appends its result, every
  exception that leaves the body is turned into a result; then the \<^verbatim>\<open>finally\<close> closes the
  context, and an exception of that close leaves the function.
\<close>

definition test_strategy :: "(nat \<Rightarrow> probe_env) \<Rightarrow> string \<Rightarrow> 'a tester_scheme \<Rightarrow> string option \<times> 'a tester_scheme" where
  "test_strategy env strategy st =
     (let c = probes st; e = env c;
          st0 = emit (TestStrategy strategy) (st\<lparr>probes := Suc c\<rparr>) in
      case new_context_r e of
        Some x \<Rightarrow> (Some x, st0)
      | None \<Rightarrow>
     (let st1 = emit (NewContext c) st0 in
      case new_page_r e of
        Some x \<Rightarrow> (Some x, st1)
      | None \<Rightarrow>
     (case basic_steps e strategy st1 of
        (None, st2) \<Rightarrow>
          finally_close e c
            (read_clock (append_result
               (basic_result strategy (ticks st2) (url_at_result e)
                  (logs_after_click e @ logs_monitor e)) st2))
      | (Some x, st2) \<Rightarrow>
          finally_close e c
            (read_clock (append_result (basic_exception_result strategy (ticks st2) x) st2)))))"

text \<open>The loop of \<^verbatim>\<open>run_all_tests\<close> over the strategies, and the run from a fresh tester.\<close>

fun run_strategies :: "(nat \<Rightarrow> probe_env) \<Rightarrow> string list \<Rightarrow> 'a tester_scheme \<Rightarrow> string option \<times> 'a tester_scheme" where
  "run_strategies env [] st = (None, st)"
| "run_strategies env (s # ss) st =
     (case test_strategy env s st of
        (Some x, st1) \<Rightarrow> (Some x, st1)
      | (None, st1) \<Rightarrow> run_strategies env ss (emit (Sleep InterStrategy 2) st1))"

definition new_tester :: tester where
  "new_tester = \<lparr>results = [], trace = [], ticks = 0, probes = 0\<rparr>"

definition run_all_tests :: "(nat \<Rightarrow> probe_env) \<Rightarrow> string option \<times> tester" where
  "run_all_tests env = run_strategies env strategies new_tester"

section \<open>The adaptive script (adaptive-tester.py)\<close>

definition new_adaptive_tester :: adaptive_tester where
  "new_adaptive_tester =
     \<lparr>results = [], trace = [], ticks = 0, probes = 0, learned_insights = []\<rparr>"

definition log_insight :: "string \<Rightarrow> adaptive_tester \<Rightarrow> adaptive_tester" where
  "log_insight text st =
     st\<lparr>learned_insights := learned_insights st @ [\<lparr>timestamp = ticks st, insight = text\<rparr>],
        ticks := Suc (ticks st)\<rparr>"

definition wait_for_cache_update :: "nat \<Rightarrow> adaptive_tester \<Rightarrow> adaptive_tester" where
  "wait_for_cache_update strategy_index st =
     emit (Sleep CacheWait (if strategy_index < 3 then 5 else 2)) st"

definition error_patterns :: "(string \<times> string) list" where
  "error_patterns =
     [(''ReferenceError: workingUrl is not defined'', ''JavaScript variable not properly initialized''),
      (''Refused to frame'', ''CSP blocks iframe embedding''),
      (''networkidle timeout'', ''Page taking too long to load'')]"

definition analyze_console_logs :: "string list \<Rightarrow> string list" where
  "analyze_console_logs logs =
     concat (map (\<lambda>log. map (\<lambda>(pattern, meaning). ''Found: '' @ meaning)
                          (filter (\<lambda>(pattern, meaning). substr_in pattern log) error_patterns)) logs)"

text \<open>\<^verbatim>\<open>"error" in log.lower()\<close>.\<close>

definition is_error :: "string \<Rightarrow> bool" where
  "is_error log = substr_in ''error'' (lower log)"

subsection \<open>Monitoring\<close>

text \<open>
  The loop over the input elements of one polling iteration. It stops at the first
  \<^verbatim>\<open>input_value()\<close> that raises (the iteration's \<^verbatim>\<open>except\<close> then skips the rest of the
  iteration) and keeps what was set before.
\<close>

fun scan_inputs :: "string \<Rightarrow> (string + string) list \<Rightarrow> bool \<Rightarrow> adaptive_tester \<Rightarrow> string option \<times> bool \<times> adaptive_tester" where
  "scan_inputs strategy [] af st = (None, af, st)"
| "scan_inputs strategy (Inl x # rest) af st = (Some x, af, st)"
| "scan_inputs strategy (Inr v # rest) af st =
     (if v \<noteq> [] \<and> (substr_in ''19.5'' v \<or> substr_in ''21.42'' v) then
        scan_inputs strategy rest True
          (if substr_in ''21.42'' v
           then log_insight (''Amount hijack detected in '' @ strategy @ '': '' @ v) st
           else st)
      else scan_inputs strategy rest af st)"

definition check_page_text :: "string \<Rightarrow> string \<Rightarrow> bool \<Rightarrow> bool \<Rightarrow> adaptive_tester \<Rightarrow> bool \<times> bool \<times> adaptive_tester" where
  "check_page_text strategy page_text af pf st =
     (let amount_seen = (substr_in ''19.5'' page_text \<or> substr_in ''21.42'' page_text);
          af1 = (if amount_seen then True else af);
          st1 = (if amount_seen \<and> substr_in ''21.42'' page_text
                 then log_insight (''Amount hijack in page text for '' @ strategy) st else st);
          pf1 = (if substr_in ''mercuryo'' (lower page_text) then True else pf);
          st2 = (if substr_in ''moonpay'' (lower page_text) \<and> pf1
                 then log_insight (''Provider competition detected in '' @ strategy) st1 else st1)
      in (af1, pf1, st2))"

text \<open>
  One iteration of the loop, on the two flags and the tester: every exception inside
  the iteration's \<^verbatim>\<open>try\<close> ends the iteration (\<^verbatim>\<open>continue\<close>).
\<close>

definition poll_adaptive :: "string \<Rightarrow> poll_env \<Rightarrow> bool \<times> bool \<times> adaptive_tester \<Rightarrow> bool \<times> bool \<times> adaptive_tester" where
  "poll_adaptive strategy pe acc =
     (case acc of (af, pf, st) \<Rightarrow>
        (let st0 = emit (Sleep Poll 1) st in
         case inputs_r pe of
           Inl x \<Rightarrow> (af, pf, st0)
         | Inr els \<Rightarrow>
             (case scan_inputs strategy els af st0 of
                (Some x, af1, st1) \<Rightarrow> (af1, pf, st1)
              | (None, af1, st1) \<Rightarrow>
                  (case content_r pe of
                     Inl x \<Rightarrow> (af1, pf, st1)
                   | Inr page_text \<Rightarrow> check_page_text strategy page_text af1 pf st1))))"

fun monitor_loop :: "string \<Rightarrow> (nat \<Rightarrow> poll_env) \<Rightarrow> nat list \<Rightarrow> bool \<times> bool \<times> adaptive_tester \<Rightarrow> bool \<times> bool \<times> adaptive_tester" where
  "monitor_loop strategy ps [] acc = acc"
| "monitor_loop strategy ps (i # ks) acc =
     monitor_loop strategy ps ks (poll_adaptive strategy (ps i) acc)"

text \<open>The flags \<^verbatim>\<open>amount_found\<close> and \<^verbatim>\<open>provider_found\<close> when the loop of 15 iterations ends.\<close>

definition monitor_flags :: "probe_env \<Rightarrow> string \<Rightarrow> adaptive_tester \<Rightarrow> bool \<times> bool \<times> adaptive_tester" where
  "monitor_flags e strategy st = monitor_loop strategy (polls e) [0..<15] (False, False, st)"

definition monitor_simpleswap_with_learning :: "probe_env \<Rightarrow> string \<Rightarrow> adaptive_tester \<Rightarrow> string option \<times> adaptive_tester" where
  "monitor_simpleswap_with_learning e strategy st =
     (case monitor_flags e strategy st of (af, pf, st1) \<Rightarrow>
        (let st2 = (if af then log_insight (''Amount monitoring successful in '' @ strategy) st1
                    else log_insight (''No amount found in '' @ strategy @ '' - may need different selectors'') st1);
             st3 = (if pf then log_insight (''Provider detection successful in '' @ strategy) st2 else st2)
         in case screenshot_r e of
              Some x \<Rightarrow> (Some x, st3)
            | None \<Rightarrow>
                (None, emit (Screenshot (screenshot_path strategy (shot_time e)) (Some True)) st3)))"

subsection \<open>One attempt\<close>

definition request_url :: "string \<Rightarrow> int \<Rightarrow> string" where
  "request_url strategy cb = base_url @ ''?strategy='' @ strategy @ ''&t='' @ str_of_int cb"

definition adaptive_result :: "string \<Rightarrow> int \<Rightarrow> nat \<Rightarrow> bool \<Rightarrow> string \<Rightarrow> string list \<Rightarrow> string list \<Rightarrow> pydict" where
  "adaptive_result strategy attempt t success current_url console_logs notes =
     [(''strategy'', JStr strategy),
      (''attempt'', JInt attempt),
      (''timestamp'', JTime t),
      (''success'', JBool success),
      (''final_url'', JStr current_url),
      (''console_logs'', JStrs (tail_slice 10 console_logs)),
      (''notes'', JStrs notes)]"

definition adaptive_exception_result :: "string \<Rightarrow> int \<Rightarrow> nat \<Rightarrow> string \<Rightarrow> string list \<Rightarrow> pydict" where
  "adaptive_exception_result strategy attempt t x console_logs =
     [(''strategy'', JStr strategy),
      (''attempt'', JInt attempt),
      (''timestamp'', JTime t),
      (''success'', JBool False),
      (''error'', JStr x),
      (''console_logs'', JStrs (tail_slice 5 console_logs)),
      (''notes'', JStrs [''Exception occurred''])]"

definition finish_attempt :: "string \<Rightarrow> int \<Rightarrow> bool \<Rightarrow> string \<Rightarrow> string list \<Rightarrow> string list \<Rightarrow> adaptive_tester \<Rightarrow> adaptive_tester" where
  "finish_attempt strategy attempt success current_url console_logs notes st =
     read_clock (append_result
       (adaptive_result strategy attempt (ticks st) success current_url console_logs notes) st)"

text \<open>The \<^verbatim>\<open>except\<close> branch: an insight, then the result without a final URL.\<close>

definition record_exception :: "string \<Rightarrow> int \<Rightarrow> string \<Rightarrow> string list \<Rightarrow> adaptive_tester \<Rightarrow> adaptive_tester" where
  "record_exception strategy attempt x console_logs st =
     (let st1 = log_insight (''Exception in '' @ strategy @ '': '' @ x) st in
      read_clock (append_result
        (adaptive_exception_result strategy attempt (ticks st1) x console_logs) st1))"

definition no_redirect_notes :: "string list" where
  "no_redirect_notes = [''No redirect occurred'', ''Checking console logs for cause'']"

text \<open>
  How the body of the \<^verbatim>\<open>try\<close> ends, before the comment \<^verbatim>\<open># Collect comprehensive results\<close>:
  it raised (with the console lines collected so far), it logged the scope issue and
  stands before the test \<^verbatim>\<open>attempt < 2\<close> (with the console lines and the request URL), or
  it set \<^verbatim>\<open>success\<close> and \<^verbatim>\<open>notes\<close> (given with the URL read and the console lines).
\<close>

datatype probe_outcome =
    Raised string "string list" adaptive_tester
  | ScopeIssue "string list" string adaptive_tester
  | Classified bool "string list" string "string list" adaptive_tester

definition no_redirect_steps :: "string \<Rightarrow> string \<Rightarrow> string list \<Rightarrow> adaptive_tester \<Rightarrow> probe_outcome" where
  "no_redirect_steps strategy url console_logs st =
     (let st1 = log_insight (''No redirect occurred in '' @ strategy @ '' - checking for errors'') st;
          st2 = fold log_insight (analyze_console_logs console_logs) st1;
          recent_errors = filter is_error (tail_slice 5 console_logs)
      in if recent_errors \<noteq> [] \<and> substr_in ''workingUrl is not defined'' (last recent_errors)
         then ScopeIssue console_logs url
                (log_insight ''JavaScript variable scope issue detected'' st2)
         else Classified False no_redirect_notes url console_logs st2)"

text \<open>The block \<^verbatim>\<open># Check if we stayed on same page or redirected\<close>, after the click.\<close>

definition check_redirect :: "probe_env \<Rightarrow> string \<Rightarrow> string \<Rightarrow> string list \<Rightarrow> adaptive_tester \<Rightarrow> probe_outcome" where
  "check_redirect e strategy url logs1 st =
     (let current_url = url_after_click e in
      if current_url = url then no_redirect_steps strategy url logs1 st
      else if substr_in ''simpleswap.io'' current_url then
        (case monitor_simpleswap_with_learning e strategy
                (log_insight (''Successful redirect with '' @ strategy) st) of
           (Some x, st1) \<Rightarrow> Raised x (logs1 @ logs_monitor e) st1
         | (None, st1) \<Rightarrow>
             Classified True [''Successful redirect''] current_url (logs1 @ logs_monitor e) st1)
      else
        Classified False [''Unexpected redirect to '' @ current_url] current_url logs1
          (log_insight (''Unexpected redirect in '' @ strategy @ '': '' @ current_url) st))"

definition probe_steps :: "probe_env \<Rightarrow> string \<Rightarrow> adaptive_tester \<Rightarrow> probe_outcome" where
  "probe_steps e strategy st =
     (let url = request_url strategy (cache_buster e);
          logs0 = logs_before_click e in
      case goto_r e of
        Some x \<Rightarrow> Raised x logs0 st
      | None \<Rightarrow>
     (case wait_selector_r e of
        Some x \<Rightarrow> Raised x logs0 st
      | None \<Rightarrow>
     (let st1 = wait_for_cache_update (length (results st)) st in
      case debug_check (debug_r e) of
        Inl x \<Rightarrow> Raised x logs0 st1
      | Inr present \<Rightarrow>
     (let st2 = log_insight
                  (if present then ''Debug output present in '' @ strategy
                   else ''No debug output in '' @ strategy @ '' - may indicate loading issue'') st1;
          js_errors = filter is_error logs0;
          st3 = (if js_errors \<noteq> []
                 then log_insight (''Pre-click JS errors in '' @ strategy @ '': '' @ last js_errors) st2
                 else st2);
          logs1 = logs0 @ logs_after_click e in
      case click_r e of
        Some x \<Rightarrow> Raised x logs1 st3
      | None \<Rightarrow>
     check_redirect e strategy url logs1 (emit (Sleep AfterClick 3) st3)))))"

text \<open>
  \<^verbatim>\<open>test_strategy_with_learning\<close>. The retry closes the context, sleeps and returns what
  the recursive call returns, from inside the \<^verbatim>\<open>try\<close>: an exception of that close, and an
  exception leaving the recursive call (its context or page could not be created, or the
  close in its \<^verbatim>\<open>finally\<close> raised), is handled by this call's \<^verbatim>\<open>except\<close>. This call's
  \<^verbatim>\<open>finally\<close> then closes its context, after a retry for the second time.
\<close>

function test_strategy_with_learning :: "(nat \<Rightarrow> probe_env) \<Rightarrow> string \<Rightarrow> int \<Rightarrow> adaptive_tester \<Rightarrow> string option \<times> adaptive_tester" where
  "test_strategy_with_learning env strategy attempt st =
     (let c = probes st; e = env c;
          st0 = emit (TestAttempt strategy attempt) (st\<lparr>probes := Suc c\<rparr>) in
      case new_context_r e of
        Some x \<Rightarrow> (Some x, st0)
      | None \<Rightarrow>
     (let st1 = emit (NewContext c) st0 in
      case new_page_r e of
        Some x \<Rightarrow> (Some x, st1)
      | None \<Rightarrow>
     (case probe_steps e strategy st1 of
        Classified success notes current_url logs st2 \<Rightarrow>
          finally_close e c (finish_attempt strategy attempt success current_url logs notes st2)
      | Raised x logs st2 \<Rightarrow>
          finally_close e c (record_exception strategy attempt x logs st2)
      | ScopeIssue logs url st2 \<Rightarrow>
          if attempt < 2 then
            (case retry_close_r e of
               Some x \<Rightarrow> finally_close e c (record_exception strategy attempt x logs st2)
             | None \<Rightarrow>
            (case test_strategy_with_learning env strategy (attempt + 1)
                    (emit (Sleep RetryWait 5) (emit (CloseContext c) st2)) of
               (None, st3) \<Rightarrow> finally_close e c st3
             | (Some x, st3) \<Rightarrow>
                 finally_close e c (record_exception strategy attempt x logs st3)))
          else
            finally_close e c (finish_attempt strategy attempt False url logs no_redirect_notes st2))))"
  by pat_completeness auto

termination
  by (relation "measure (\<lambda>(env, strategy, attempt, st). nat (2 - attempt))") auto

declare test_strategy_with_learning.simps [simp del]

subsection \<open>The run and its analysis\<close>

definition analyze_patterns :: "adaptive_tester \<Rightarrow> adaptive_tester" where
  "analyze_patterns st =
     (let successful_strategies = filter get_success (results st);
          failed_strategies = filter (\<lambda>r. \<not> get_success r) (results st);
          st1 = (if successful_strategies \<noteq> []
                 then log_insight (''Found '' @ str_of_int (int (length successful_strategies))
                                     @ '' successful strategies'') st
                 else st)
      in if failed_strategies \<noteq> [] then
           (let js_error_count =
                  length (filter (\<lambda>r. list_ex is_error (get_console_logs r)) failed_strategies)
            in if js_error_count > 0
               then log_insight (''JavaScript errors in '' @ str_of_int (int js_error_count)
                                   @ '' strategies - code issue'') st1
               else st1)
         else st1)"

record analysis =
  total_tests :: nat
  successful :: nat
  failed :: nat
  key_insights :: "string list"
  recommendations :: "string list"

definition final_analysis :: "adaptive_tester \<Rightarrow> analysis" where
  "final_analysis st =
     (let texts = map insight (learned_insights st);
          a0 = \<lparr>total_tests = length (results st),
                successful = length (filter get_success (results st)),
                failed = length (filter (\<lambda>r. \<not> get_success r) (results st)),
                key_insights = [], recommendations = []\<rparr>;
          a1 = (if ''JavaScript variable scope issue detected'' \<in> set texts
                then a0\<lparr>key_insights := key_insights a0 @ [''JavaScript variable scoping needs fixing''],
                        recommendations := recommendations a0 @ [''Fix workingUrl variable initialization'']\<rparr>
                else a0)
      in if ''CSP blocks iframe embedding'' \<in> set texts
         then a1\<lparr>key_insights := key_insights a1 @ [''Iframe approach blocked by CSP''],
                 recommendations := recommendations a1 @ [''Use popup window instead of iframe'']\<rparr>
         else a1)"

text \<open>
  The loop of \<^verbatim>\<open>run_adaptive_tests\<close>: \<open>n\<close> is \<^verbatim>\<open>len(self.strategies)\<close> and \<open>i\<close> the index that
  \<^verbatim>\<open>enumerate\<close> gives. \<open>after_strategy\<close> is the rest of the loop body once the test function
  has returned: the analysis of patterns from the second strategy on, and the delay
  before every strategy but the last.
\<close>

definition after_strategy :: "nat \<Rightarrow> nat \<Rightarrow> adaptive_tester \<Rightarrow> adaptive_tester" where
  "after_strategy n i st1 =
     (let st2 = (if i > 0 then analyze_patterns st1 else st1)
      in if int i < int n - 1 then emit (Sleep InterStrategy 3) st2 else st2)"

fun adaptive_loop :: "(nat \<Rightarrow> probe_env) \<Rightarrow> nat \<Rightarrow> nat \<Rightarrow> string list \<Rightarrow> adaptive_tester \<Rightarrow> string option \<times> adaptive_tester" where
  "adaptive_loop env n i [] st = (None, st)"
| "adaptive_loop env n i (s # ss) st =
     (case test_strategy_with_learning env s 1 st of
        (Some x, st1) \<Rightarrow> (Some x, st1)
      | (None, st1) \<Rightarrow> adaptive_loop env n (Suc i) ss (after_strategy n i st1))"

definition run_adaptive_on :: "(nat \<Rightarrow> probe_env) \<Rightarrow> string list \<Rightarrow> string option \<times> adaptive_tester" where
  "run_adaptive_on env strats = adaptive_loop env (length strats) 0 strats new_adaptive_tester"

definition run_adaptive_tests :: "(nat \<Rightarrow> probe_env) \<Rightarrow> string option \<times> adaptive_tester" where
  "run_adaptive_tests env = run_adaptive_on env strategies"

section \<open>Observations on runs\<close>

subsection \<open>Events of a trace\<close>

text \<open>
  \<open>inner_event\<close>: the events the body of a \<^verbatim>\<open>try\<close> can add to the trace (its sleeps and
  the screenshot). The other predicates pick out the entries into the adaptive test
  function, those for one strategy label, the sleep before a retry and the sleep between
  two strategies. \<open>call_event s\<close> holds of every event one call of the adaptive test
  function for strategy \<open>s\<close> can add.
\<close>

fun inner_event :: "event \<Rightarrow> bool" where
  "inner_event (Sleep site n) = (site \<noteq> RetryWait \<and> site \<noteq> InterStrategy)"
| "inner_event (Screenshot p f) = True"
| "inner_event ev = False"

fun is_test_attempt :: "event \<Rightarrow> bool" where
  "is_test_attempt (TestAttempt s a) = True"
| "is_test_attempt ev = False"

fun is_attempt_of :: "string \<Rightarrow> event \<Rightarrow> bool" where
  "is_attempt_of s (TestAttempt s' a) = (s' = s)"
| "is_attempt_of s ev = False"

fun is_retry_wait :: "event \<Rightarrow> bool" where
  "is_retry_wait (Sleep site n) = (site = RetryWait)"
| "is_retry_wait ev = False"

fun is_inter_sleep :: "event \<Rightarrow> bool" where
  "is_inter_sleep (Sleep site n) = (site = InterStrategy)"
| "is_inter_sleep ev = False"

fun call_event :: "string \<Rightarrow> event \<Rightarrow> bool" where
  "call_event s (TestAttempt s' a) = (s' = s)"
| "call_event s (TestStrategy s') = False"
| "call_event s (Sleep site n) = (site \<noteq> InterStrategy)"
| "call_event s ev = True"

text \<open>
  The contexts that are open after a trace, and the largest number of contexts open at
  the same time along it: \<open>NewContext c\<close> opens \<open>c\<close>, \<open>CloseContext c\<close> closes it (closing
  a closed context changes nothing).
\<close>

fun track_contexts :: "event list \<Rightarrow> nat list \<Rightarrow> nat \<Rightarrow> nat list \<times> nat" where
  "track_contexts [] cs peak = (cs, peak)"
| "track_contexts (NewContext c # evs) cs peak =
     track_contexts evs (cs @ [c]) (max peak (Suc (length cs)))"
| "track_contexts (CloseContext c # evs) cs peak = track_contexts evs (removeAll c cs) peak"
| "track_contexts (ev # evs) cs peak = track_contexts evs cs peak"

definition open_contexts :: "event list \<Rightarrow> nat list" where
  "open_contexts tr = fst (track_contexts tr [] 0)"

definition peak_open :: "event list \<Rightarrow> nat" where
  "peak_open tr = snd (track_contexts tr [] 0)"

text \<open>
  \<open>pages_open env\<close>: no page creation raises. \<open>closes env\<close>: no \<^verbatim>\<open>context.close()\<close> of a
  \<^verbatim>\<open>finally\<close> raises. \<open>balanced evs\<close>: run from a moment at which no context is open, the
  events \<open>evs\<close> leave no context open and never hold more than one. \<open>settled tr\<close>: after
  the trace \<open>tr\<close> no context is open, and at most one was open at any time.
\<close>

definition pages_open :: "(nat \<Rightarrow> probe_env) \<Rightarrow> bool" where
  "pages_open env \<longleftrightarrow> (\<forall>k. new_page_r (env k) = None)"

definition closes :: "(nat \<Rightarrow> probe_env) \<Rightarrow> bool" where
  "closes env \<longleftrightarrow> (\<forall>k. close_r (env k) = None)"

definition balanced :: "event list \<Rightarrow> bool" where
  "balanced evs \<longleftrightarrow>
     (\<forall>p. fst (track_contexts evs [] p) = [] \<and> snd (track_contexts evs [] p) \<le> max p 1)"

definition settled :: "event list \<Rightarrow> bool" where
  "settled tr \<longleftrightarrow> open_contexts tr = [] \<and> peak_open tr \<le> 1"

subsection \<open>States along one call\<close>

text \<open>
  \<open>entered\<close> is the state once the test function has been entered, \<open>in_context\<close> the
  state at the \<^verbatim>\<open>try\<close> (context and page created), \<open>retry_state\<close> the state in which the
  retry calls the function again. \<open>quiet_step st st'\<close>: from \<open>st\<close> to \<open>st'\<close> no result was
  appended, no call was counted and only inner events were added.
\<close>

definition entered :: "event \<Rightarrow> 'a tester_scheme \<Rightarrow> 'a tester_scheme" where
  "entered ev st = emit ev (st\<lparr>probes := Suc (probes st)\<rparr>)"

definition in_context :: "event \<Rightarrow> 'a tester_scheme \<Rightarrow> 'a tester_scheme" where
  "in_context ev st = emit (NewContext (probes st)) (entered ev st)"

definition retry_state :: "nat \<Rightarrow> adaptive_tester \<Rightarrow> adaptive_tester" where
  "retry_state c st = emit (Sleep RetryWait 5) (emit (CloseContext c) st)"

definition quiet_step :: "'a tester_scheme \<Rightarrow> 'a tester_scheme \<Rightarrow> bool" where
  "quiet_step st st' \<longleftrightarrow>
     probes st' = probes st \<and> results st' = results st \<and>
     (\<exists>evs. trace st' = trace st @ evs \<and> list_all inner_event evs)"

text \<open>
  What the body of the adaptive \<^verbatim>\<open>try\<close> guarantees about its outcome: the state moved by
  a quiet step, the scope issue is only reached when the page stayed on the request
  URL, and \<^verbatim>\<open>success\<close> is set exactly when the URL read differs from the request URL
  and contains the destination domain.
\<close>

definition quiet_outcome :: "adaptive_tester \<Rightarrow> probe_env \<Rightarrow> string \<Rightarrow> probe_outcome \<Rightarrow> bool" where
  "quiet_outcome st0 e s out =
     (case out of
        Raised x l st' \<Rightarrow> quiet_step st0 st'
      | ScopeIssue l u st' \<Rightarrow>
          quiet_step st0 st' \<and> u = request_url s (cache_buster e) \<and> url_after_click e = u
      | Classified b notes u l st' \<Rightarrow>
          quiet_step st0 st' \<and> u = url_after_click e \<and>
          (b \<longleftrightarrow> u \<noteq> request_url s (cache_buster e) \<and> substr_in ''simpleswap.io'' u))"

text \<open>
  The events of one call of the adaptive test function for attempt number \<open>a\<close>: one
  entry more than retries, and at most \<open>2 - a\<close> retries.
\<close>

definition call_trace :: "string \<Rightarrow> int \<Rightarrow> event list \<Rightarrow> bool" where
  "call_trace s a evs \<longleftrightarrow>
     list_all (call_event s) evs \<and>
     length (filter is_test_attempt evs) = Suc (length (filter is_retry_wait evs)) \<and>
     length (filter is_retry_wait evs) \<le> nat (2 - a)"

definition call_summary :: "string \<Rightarrow> int \<Rightarrow> adaptive_tester \<Rightarrow> adaptive_tester \<Rightarrow> bool" where
  "call_summary s a st st' \<longleftrightarrow>
     (\<exists>evs. trace st' = trace st @ evs \<and> call_trace s a evs \<and>
            probes st' = probes st + length (filter is_test_attempt evs))"

subsection \<open>Shapes of the recorded results\<close>

text \<open>
  \<open>adaptive_entry e s r\<close>: \<open>r\<close> is a result the adaptive script records for strategy
  \<open>s\<close> when \<open>e\<close> is the browser of the attempt that read the final URL; \<open>basic_entry\<close> is
  the same for the basic script. \<open>has_strategy s r\<close>: the strategy field of \<open>r\<close> is \<open>s\<close>.
\<close>

definition adaptive_entry :: "probe_env \<Rightarrow> string \<Rightarrow> pydict \<Rightarrow> bool" where
  "adaptive_entry e s r \<longleftrightarrow>
     (\<exists>a t x logs. r = adaptive_exception_result s a t x logs) \<or>
     (\<exists>a t b logs ns. r = adaptive_result s a t b (url_after_click e) logs ns \<and>
        (b \<longleftrightarrow> url_after_click e \<noteq> request_url s (cache_buster e) \<and>
               substr_in ''simpleswap.io'' (url_after_click e)))"

definition result_summary :: "(nat \<Rightarrow> probe_env) \<Rightarrow> string \<Rightarrow> adaptive_tester \<Rightarrow> string option \<times> adaptive_tester \<Rightarrow> bool" where
  "result_summary env s st res \<longleftrightarrow>
     probes st < probes (snd res) \<and>
     (\<exists>rs. results (snd res) = results st @ rs \<and>
           length rs \<le> probes (snd res) - probes st \<and>
           (closes env \<longrightarrow> length rs = (if fst res = None then 1 else 0)) \<and>
           list_all (adaptive_entry (env (probes (snd res) - 1)) s) rs) \<and>
     (case fst res of None \<Rightarrow> True
      | Some x \<Rightarrow> new_context_r (env (probes st)) = Some x \<or>
                  (new_context_r (env (probes st)) = None \<and> new_page_r (env (probes st)) = Some x) \<or>
                  close_r (env (probes st)) = Some x)"

definition basic_entry :: "probe_env \<Rightarrow> string \<Rightarrow> pydict \<Rightarrow> bool" where
  "basic_entry e s r \<longleftrightarrow>
     (\<exists>t x. r = basic_exception_result s t x) \<or>
     (\<exists>t logs. r = basic_result s t (url_at_result e) logs)"

definition basic_summary :: "(nat \<Rightarrow> probe_env) \<Rightarrow> string \<Rightarrow> 'a tester_scheme \<Rightarrow> string option \<times> 'a tester_scheme \<Rightarrow> bool" where
  "basic_summary env s st res \<longleftrightarrow>
     probes (snd res) = Suc (probes st) \<and>
     (\<exists>rs. results (snd res) = results st @ rs \<and>
           length rs \<le> 1 \<and>
           (close_r (env (probes st)) = None \<longrightarrow> length rs = (if fst res = None then 1 else 0)) \<and>
           list_all (basic_entry (env (probes st)) s) rs) \<and>
     (\<exists>evs. trace (snd res) = trace st @ TestStrategy s # evs \<and> filter is_inter_sleep evs = []) \<and>
     (case fst res of None \<Rightarrow> True
      | Some x \<Rightarrow> new_context_r (env (probes st)) = Some x \<or>
                  (new_context_r (env (probes st)) = None \<and> new_page_r (env (probes st)) = Some x) \<or>
                  close_r (env (probes st)) = Some x)"

definition has_strategy :: "string \<Rightarrow> pydict \<Rightarrow> bool" where
  "has_strategy s r \<longleftrightarrow> dict_get r ''strategy'' = Some (JStr s)"

text \<open>
  \<open>acquires env\<close>: no creation of a context or of a page raises. The rules relating the
  success flag of a recorded result to its final URL: for the basic script, and for
  the adaptive script with \<open>e\<close> the browser of the attempt that recorded the result,
  which is the last attempt of the call (\<open>deciding_browser\<close>).
\<close>

definition acquires :: "(nat \<Rightarrow> probe_env) \<Rightarrow> bool" where
  "acquires env \<longleftrightarrow> (\<forall>k. new_context_r (env k) = None \<and> new_page_r (env k) = None)"

definition basic_success_rule :: "pydict \<Rightarrow> bool" where
  "basic_success_rule r \<longleftrightarrow>
     (case dict_get r ''final_url'' of
        Some (JStr u) \<Rightarrow>
          get_success r = (substr_in ''simpleswap.io'' u \<or> dict_get r ''strategy'' = Some (JStr ''iframe''))
      | _ \<Rightarrow> \<not> get_success r)"

definition adaptive_success_rule :: "probe_env \<Rightarrow> string \<Rightarrow> pydict \<Rightarrow> bool" where
  "adaptive_success_rule e s r \<longleftrightarrow>
     (case dict_get r ''final_url'' of
        Some (JStr u) \<Rightarrow>
          u = url_after_click e \<and>
          get_success r = (u \<noteq> request_url s (cache_buster e) \<and> substr_in ''simpleswap.io'' u)
      | _ \<Rightarrow> \<not> get_success r)"

definition deciding_browser :: "(nat \<Rightarrow> probe_env) \<Rightarrow> string option \<times> adaptive_tester \<Rightarrow> probe_env" where
  "deciding_browser env res = env (probes (snd res) - 1)"

subsection \<open>What a polling iteration reads\<close>

text \<open>
  \<open>polled_text pe\<close> is the page text iteration \<open>pe\<close> of the adaptive monitoring loop gets
  to read: none when the query for the inputs, one of their values or the page content
  raises. \<open>names_mercuryo pe\<close>: that text contains "mercuryo" in any letter case.
\<close>

definition polled_text :: "poll_env \<Rightarrow> string option" where
  "polled_text pe =
     (case inputs_r pe of
        Inl x \<Rightarrow> None
      | Inr els \<Rightarrow>
          if list_all (\<lambda>v. \<not> isl v) els
          then (case content_r pe of Inl x \<Rightarrow> None | Inr t \<Rightarrow> Some t)
          else None)"

definition names_mercuryo :: "poll_env \<Rightarrow> bool" where
  "names_mercuryo pe =
     (case polled_text pe of None \<Rightarrow> False | Some t \<Rightarrow> substr_in ''mercuryo'' (lower t))"

section \<open>Browsers used as examples\<close>

text \<open>
  \<open>calm_page u\<close> is a browser in which nothing raises, the console stays silent, there
  is no debug element and the page shows the URL \<open>u\<close> after the click. The others differ
  from it in one respect each: the page that stays on the request URL of strategy
  "basic" and logs the \<open>workingUrl\<close> error after the click (on every attempt:
  \<open>retry_browser\<close>; with a page creation that raises on the second call: \<open>leaky_browser\<close>;
  \<open>scope_issue_state st\<close> is the state in which an attempt for "basic" that entered its
  \<^verbatim>\<open>try\<close> in \<open>st\<close> reaches the test \<^verbatim>\<open>attempt < 2\<close> on that page),
  a context creation, a click, the close of the \<^verbatim>\<open>finally\<close> or the close before the retry
  that raises, and destination pages whose text names MoonPay only, or Mercuryo in the
  fourth polling iteration.
\<close>

definition calm_poll :: poll_env where
  "calm_poll = \<lparr>query_r = None, inputs_r = Inr [], content_r = Inr ''''\<rparr>"

definition calm_page :: "string \<Rightarrow> probe_env" where
  "calm_page u =
     \<lparr>new_context_r = None, new_page_r = None, cache_buster = 1700000000, goto_r = None,
      wait_selector_r = None, debug_r = DebugAbsent, logs_before_click = [], click_r = None,
      logs_after_click = [], url_after_click = u, container_r = Inr False, iframe_r = Inr False,
      iframe_src_r = None, frame_accessible = False, load_state_r = None,
      polls = (\<lambda>i. calm_poll), logs_monitor = [], screenshot_r = None,
      shot_time = 1700000020, url_at_result = u, retry_close_r = None, close_r = None\<rparr>"

definition iframe_browser :: "nat \<Rightarrow> probe_env" where
  "iframe_browser k = calm_page ''https://blinds123.github.io/simpleswap-realtime-test?strategy=iframe''"

definition swap_page :: probe_env where
  "swap_page = calm_page ''https://simpleswap.io/exchange''"

definition swap_browser :: "nat \<Rightarrow> probe_env" where
  "swap_browser k = swap_page"

definition scope_error_page :: probe_env where
  "scope_error_page =
     (calm_page ''https://blinds123.github.io/simpleswap-realtime-test?strategy=basic&t=1700000000'')
       \<lparr>logs_after_click := [''[error] ReferenceError: workingUrl is not defined'']\<rparr>"

definition scope_issue_state :: "adaptive_tester \<Rightarrow> adaptive_tester" where
  "scope_issue_state st =
     log_insight ''JavaScript variable scope issue detected''
       (log_insight ''Found: JavaScript variable not properly initialized''
         (log_insight ''No redirect occurred in basic - checking for errors''
           (emit (Sleep AfterClick 3)
             (log_insight ''No debug output in basic - may indicate loading issue''
               (wait_for_cache_update (length (results st)) st)))))"

definition retry_browser :: "nat \<Rightarrow> probe_env" where
  "retry_browser k = scope_error_page"

definition leaky_browser :: "nat \<Rightarrow> probe_env" where
  "leaky_browser k =
     (if k = 1 then scope_error_page\<lparr>new_page_r := Some ''Target page, context or browser has been closed''\<rparr>
      else scope_error_page)"

definition no_context_browser :: "nat \<Rightarrow> probe_env" where
  "no_context_browser k = swap_page\<lparr>new_context_r := Some ''Browser has been closed''\<rparr>"

definition no_close_browser :: "nat \<Rightarrow> probe_env" where
  "no_close_browser k = swap_page\<lparr>close_r := Some ''Connection closed''\<rparr>"

definition stuck_retry_browser :: "nat \<Rightarrow> probe_env" where
  "stuck_retry_browser k = scope_error_page\<lparr>retry_close_r := Some ''Connection closed''\<rparr>"

definition click_fails_browser :: "nat \<Rightarrow> probe_env" where
  "click_fails_browser k = swap_page\<lparr>click_r := Some ''Timeout 30000ms exceeded''\<rparr>"

definition moonpay_page :: probe_env where
  "moonpay_page = swap_page\<lparr>polls := (\<lambda>i. calm_poll\<lparr>content_r := Inr ''<p>Pay with MoonPay</p>''\<rparr>)\<rparr>"

definition mercuryo_page :: probe_env where
  "mercuryo_page =
     swap_page\<lparr>polls := (\<lambda>i. if i = 3 then calm_poll\<lparr>content_r := Inr ''<b>Mercuryo</b>''\<rparr> else calm_poll)\<rparr>"

section \<open>Properties of the steps\<close>

lemma quiet_refl [simp]: "quiet_step st st"
  by (simp add: quiet_step_def)

lemma quiet_emit_after: "inner_event ev \<Longrightarrow> quiet_step st st' \<Longrightarrow> quiet_step st (emit ev st')"
  by (auto simp: quiet_step_def emit_def)

lemma quiet_log_insight: "quiet_step st st' \<Longrightarrow> quiet_step st (log_insight t st')"
  by (auto simp: quiet_step_def log_insight_def)

lemma poll_basic_quiet: "quiet_step st0 st \<Longrightarrow> poll_basic ps ks st = (out, st') \<Longrightarrow> quiet_step st0 st'"
proof (induction ks arbitrary: st)
  case Nil
  then show ?case by simp
next
  case (Cons k ks)
  have q: "quiet_step st0 (emit (Sleep Poll 1) st)"
    using Cons.prems(1) by (rule quiet_emit_after[rotated]) simp
  show ?case
  proof (cases "query_r (ps k)")
    case None
    with Cons.prems(2) have "poll_basic ps ks (emit (Sleep Poll 1) st) = (out, st')"
      by (simp add: Let_def)
    from Cons.IH[OF q this] show ?thesis .
  next
    case (Some x)
    with Cons.prems(2) have "st' = emit (Sleep Poll 1) st" by (simp add: Let_def)
    with q show ?thesis by simp
  qed
qed

lemma monitor_page_quiet:
  "quiet_step st0 st \<Longrightarrow> monitor_simpleswap_page e s st = (out, st') \<Longrightarrow> quiet_step st0 st'"
  by (auto simp: monitor_simpleswap_page_def split: prod.splits option.splits
      dest: poll_basic_quiet intro: quiet_emit_after)

lemma iframe_branch_quiet:
  "quiet_step st0 st \<Longrightarrow> iframe_branch e st = (out, st') \<Longrightarrow> quiet_step st0 st'"
  by (auto simp: iframe_branch_def Let_def split: sum.splits bool.splits option.splits if_splits
      intro!: quiet_emit_after)

lemma redirect_branch_quiet:
  "quiet_step st0 st \<Longrightarrow> redirect_branch e s st = (out, st') \<Longrightarrow> quiet_step st0 st'"
  by (auto simp: redirect_branch_def Let_def split: option.splits if_splits
      intro!: quiet_emit_after dest: monitor_page_quiet[rotated])

lemma basic_steps_quiet:
  "quiet_step st0 st \<Longrightarrow> basic_steps e s st = (out, st') \<Longrightarrow> quiet_step st0 st'"
  by (auto simp: basic_steps_def Let_def split: option.splits sum.splits if_splits
      intro!: quiet_emit_after dest: iframe_branch_quiet[rotated] redirect_branch_quiet[rotated])

lemma scan_inputs_quiet:
  "quiet_step st0 st \<Longrightarrow> scan_inputs s els af st = (out, af', st') \<Longrightarrow> quiet_step st0 st'"
  by (induction s els af st rule: scan_inputs.induct)
     (auto split: if_splits intro: quiet_log_insight)

lemma check_page_text_quiet:
  "quiet_step st0 st \<Longrightarrow> check_page_text s t af pf st = (af', pf', st') \<Longrightarrow> quiet_step st0 st'"
  by (auto simp: check_page_text_def Let_def split: if_splits intro: quiet_log_insight)

lemma poll_adaptive_quiet:
  assumes "quiet_step st0 st" and "poll_adaptive s pe (af, pf, st) = (af', pf', st')"
  shows "quiet_step st0 st'"
proof -
  have q: "quiet_step st0 (emit (Sleep Poll 1) st)"
    using assms(1) by (rule quiet_emit_after[rotated]) simp
  show ?thesis
    using assms(2) q
    by (auto simp: poll_adaptive_def Let_def split: sum.splits prod.splits option.splits
        dest: scan_inputs_quiet[rotated] check_page_text_quiet[rotated])
qed

lemma monitor_loop_quiet:
  "quiet_step st0 st \<Longrightarrow> monitor_loop s ps ks (af, pf, st) = (af', pf', st') \<Longrightarrow> quiet_step st0 st'"
proof (induction ks arbitrary: af pf st)
  case Nil
  then show ?case by simp
next
  case (Cons k ks)
  obtain af1 pf1 st1 where p: "poll_adaptive s (ps k) (af, pf, st) = (af1, pf1, st1)"
    by (metis prod_cases3)
  from poll_adaptive_quiet[OF Cons.prems(1) p] have "quiet_step st0 st1" .
  moreover from Cons.prems(2) p have "monitor_loop s ps ks (af1, pf1, st1) = (af', pf', st')"
    by simp
  ultimately show ?case by (rule Cons.IH)
qed

lemma monitor_learning_quiet:
  "quiet_step st0 st \<Longrightarrow> monitor_simpleswap_with_learning e s st = (out, st') \<Longrightarrow> quiet_step st0 st'"
  by (auto simp: monitor_simpleswap_with_learning_def monitor_flags_def Let_def
      split: prod.splits option.splits if_splits
      dest!: monitor_loop_quiet[rotated] intro!: quiet_emit_after quiet_log_insight)

lemma quiet_log_insight_iff [simp]: "quiet_step st0 (log_insight t st) = quiet_step st0 st"
  by (simp add: quiet_step_def log_insight_def)

lemma quiet_fold_log_iff [simp]: "quiet_step st0 (fold log_insight ts st) = quiet_step st0 st"
  by (induction ts arbitrary: st) simp_all

lemma quiet_wait_cache [simp]: "quiet_step st0 st \<Longrightarrow> quiet_step st0 (wait_for_cache_update n st)"
  by (auto simp: wait_for_cache_update_def intro: quiet_emit_after)

lemma no_redirect_outcome:
  "quiet_step st0 st \<Longrightarrow> url_after_click e = request_url s (cache_buster e) \<Longrightarrow>
   quiet_outcome st0 e s (no_redirect_steps s (request_url s (cache_buster e)) logs st)"
  by (simp add: no_redirect_steps_def quiet_outcome_def Let_def)

lemma check_redirect_outcome:
  assumes "quiet_step st0 st"
  shows "quiet_outcome st0 e s (check_redirect e s (request_url s (cache_buster e)) logs st)"
proof (cases "url_after_click e = request_url s (cache_buster e)")
  case True
  with assms show ?thesis
    by (simp add: check_redirect_def Let_def no_redirect_outcome)
next
  case False
  show ?thesis
  proof (cases "substr_in ''simpleswap.io'' (url_after_click e)")
    case no: False
    with False assms show ?thesis
      by (simp add: check_redirect_def Let_def quiet_outcome_def)
  next
    case yes: True
    obtain out st1 where m: "monitor_simpleswap_with_learning e s
        (log_insight (''Successful redirect with '' @ s) st) = (out, st1)"
      by (cases "monitor_simpleswap_with_learning e s
        (log_insight (''Successful redirect with '' @ s) st)")
    have "quiet_step st0 (log_insight (''Successful redirect with '' @ s) st)"
      using assms by simp
    from monitor_learning_quiet[OF this m] have q: "quiet_step st0 st1" .
    show ?thesis
      using False yes m q
      by (cases out) (simp_all add: check_redirect_def Let_def quiet_outcome_def)
  qed
qed

lemma probe_steps_outcome:
  assumes "quiet_step st0 st"
  shows "quiet_outcome st0 e s (probe_steps e s st)"
proof -
  have r: "quiet_outcome st0 e s (Raised x l st1)" if "quiet_step st0 st1" for x l st1
    using that by (simp add: quiet_outcome_def)
  have a: "quiet_step st0 (emit (Sleep AfterClick 3) st1)" if "quiet_step st0 st1" for st1
    using that by (rule quiet_emit_after[rotated]) simp
  show ?thesis
    unfolding probe_steps_def Let_def
    using assms
    by (simp add: r a check_redirect_outcome split: option.splits sum.splits)
qed

lemma tswl_rule:
  fixes env :: "nat \<Rightarrow> probe_env" and s :: string
  assumes ctx: "\<And>a st x. new_context_r (env (probes st)) = Some x \<Longrightarrow>
      P a st (Some x, entered (TestAttempt s a) st)"
  assumes page: "\<And>a st x. new_context_r (env (probes st)) = None \<Longrightarrow>
      new_page_r (env (probes st)) = Some x \<Longrightarrow>
      P a st (Some x, in_context (TestAttempt s a) st)"
  assumes cls: "\<And>a st b notes u logs st2.
      probe_steps (env (probes st)) s (in_context (TestAttempt s a) st) = Classified b notes u logs st2 \<Longrightarrow>
      P a st (finally_close (env (probes st)) (probes st) (finish_attempt s a b u logs notes st2))"
  assumes rsd: "\<And>a st x logs st2.
      probe_steps (env (probes st)) s (in_context (TestAttempt s a) st) = Raised x logs st2 \<Longrightarrow>
      P a st (finally_close (env (probes st)) (probes st) (record_exception s a x logs st2))"
  assumes fin: "\<And>a st logs u st2.
      probe_steps (env (probes st)) s (in_context (TestAttempt s a) st) = ScopeIssue logs u st2 \<Longrightarrow>
      \<not> a < 2 \<Longrightarrow>
      P a st (finally_close (env (probes st)) (probes st)
                (finish_attempt s a False u logs no_redirect_notes st2))"
  assumes rclose: "\<And>a st logs u st2 x.
      probe_steps (env (probes st)) s (in_context (TestAttempt s a) st) = ScopeIssue logs u st2 \<Longrightarrow>
      a < 2 \<Longrightarrow> retry_close_r (env (probes st)) = Some x \<Longrightarrow>
      P a st (finally_close (env (probes st)) (probes st) (record_exception s a x logs st2))"
  assumes retry: "\<And>a st logs u st2 st3.
      probe_steps (env (probes st)) s (in_context (TestAttempt s a) st) = ScopeIssue logs u st2 \<Longrightarrow>
      a < 2 \<Longrightarrow> retry_close_r (env (probes st)) = None \<Longrightarrow>
      test_strategy_with_learning env s (a + 1) (retry_state (probes st) st2) = (None, st3) \<Longrightarrow>
      P (a + 1) (retry_state (probes st) st2) (None, st3) \<Longrightarrow>
      P a st (finally_close (env (probes st)) (probes st) st3)"
  assumes retry_raise: "\<And>a st logs u st2 st3 x.
      probe_steps (env (probes st)) s (in_context (TestAttempt s a) st) = ScopeIssue logs u st2 \<Longrightarrow>
      a < 2 \<Longrightarrow> retry_close_r (env (probes st)) = None \<Longrightarrow>
      test_strategy_with_learning env s (a + 1) (retry_state (probes st) st2) = (Some x, st3) \<Longrightarrow>
      P (a + 1) (retry_state (probes st) st2) (Some x, st3) \<Longrightarrow>
      P a st (finally_close (env (probes st)) (probes st) (record_exception s a x logs st3))"
  shows "P a st (test_strategy_with_learning env s a st)"
proof (induction "nat (2 - a)" arbitrary: a st rule: less_induct)
  case less
  let ?e = "env (probes st)"
  let ?st1 = "in_context (TestAttempt s a) st"
  show ?case
  proof (cases "new_context_r ?e")
    case (Some x)
    then have "test_strategy_with_learning env s a st = (Some x, entered (TestAttempt s a) st)"
      by (subst test_strategy_with_learning.simps) (simp add: entered_def Let_def)
    with ctx[OF Some] show ?thesis by simp
  next
    case nc: None
    show ?thesis
    proof (cases "new_page_r ?e")
      case (Some x)
      with nc have "test_strategy_with_learning env s a st = (Some x, ?st1)"
        by (subst test_strategy_with_learning.simps) (simp add: entered_def in_context_def Let_def)
      with page[OF nc Some] show ?thesis by simp
    next
      case np: None
      show ?thesis
      proof (cases "probe_steps ?e s ?st1")
        case (Classified b ns u logs st2)
        with nc np have "test_strategy_with_learning env s a st =
            finally_close ?e (probes st) (finish_attempt s a b u logs ns st2)"
          by (subst test_strategy_with_learning.simps) (simp add: entered_def in_context_def Let_def)
        with cls[OF Classified] show ?thesis by simp
      next
        case (Raised x logs st2)
        with nc np have "test_strategy_with_learning env s a st =
            finally_close ?e (probes st) (record_exception s a x logs st2)"
          by (subst test_strategy_with_learning.simps) (simp add: entered_def in_context_def Let_def)
        with rsd[OF Raised] show ?thesis by simp
      next
        case (ScopeIssue logs u st2)
        show ?thesis
        proof (cases "a < 2")
          case False
          with nc np ScopeIssue have "test_strategy_with_learning env s a st =
              finally_close ?e (probes st) (finish_attempt s a False u logs no_redirect_notes st2)"
            by (subst test_strategy_with_learning.simps) (simp add: entered_def in_context_def Let_def)
          with fin[OF ScopeIssue False] show ?thesis by simp
        next
          case True
          show ?thesis
          proof (cases "retry_close_r ?e")
            case (Some x)
            with nc np ScopeIssue True have "test_strategy_with_learning env s a st =
                finally_close ?e (probes st) (record_exception s a x logs st2)"
              by (subst test_strategy_with_learning.simps)
                 (simp add: entered_def in_context_def Let_def)
            with rclose[OF ScopeIssue True Some] show ?thesis by simp
          next
            case rc: None
            let ?r = "retry_state (probes st) st2"
            have ih: "P (a + 1) ?r (test_strategy_with_learning env s (a + 1) ?r)"
              by (rule less) (use True in simp)
            obtain out st3 where rec: "test_strategy_with_learning env s (a + 1) ?r = (out, st3)"
              by (cases "test_strategy_with_learning env s (a + 1) ?r")
            show ?thesis
            proof (cases out)
              case None
              with nc np ScopeIssue True rc rec have "test_strategy_with_learning env s a st =
                  finally_close ?e (probes st) st3"
                by (subst test_strategy_with_learning.simps)
                   (simp add: entered_def in_context_def retry_state_def Let_def)
              with retry[OF ScopeIssue True rc] rec ih None show ?thesis by simp
            next
              case (Some x)
              with nc np ScopeIssue True rc rec have "test_strategy_with_learning env s a st =
                  finally_close ?e (probes st) (record_exception s a x logs st3)"
                by (subst test_strategy_with_learning.simps)
                   (simp add: entered_def in_context_def retry_state_def Let_def)
              with retry_raise[OF ScopeIssue True rc] rec ih Some show ?thesis by simp
            qed
          qed
        qed
      qed
    qed
  qed
qed

lemma emit_fields [simp]:
  "trace (emit ev st) = trace st @ [ev]" "results (emit ev st) = results st"
  "probes (emit ev st) = probes st" "ticks (emit ev st) = ticks st"
  by (simp_all add: emit_def)

lemma finally_close_fields [simp]:
  "fst (finally_close e c st) = close_r e"
  "trace (snd (finally_close e c st)) = trace st @ (if close_r e = None then [CloseContext c] else [])"
  "results (snd (finally_close e c st)) = results st"
  "probes (snd (finally_close e c st)) = probes st"
  by (simp_all add: finally_close_def split: option.splits)

lemma finally_close_returns:
  "close_r e = None \<Longrightarrow> finally_close e c st = (None, emit (CloseContext c) st)"
  by (simp add: finally_close_def)

lemma finish_attempt_fields [simp]:
  "trace (finish_attempt s a b u logs ns st) = trace st"
  "probes (finish_attempt s a b u logs ns st) = probes st"
  "results (finish_attempt s a b u logs ns st) = results st @ [adaptive_result s a (ticks st) b u logs ns]"
  by (simp_all add: finish_attempt_def read_clock_def append_result_def)

lemma record_exception_fields [simp]:
  "trace (record_exception s a x logs st) = trace st"
  "probes (record_exception s a x logs st) = probes st"
  "results (record_exception s a x logs st) =
     results st @ [adaptive_exception_result s a (Suc (ticks st)) x logs]"
  by (simp_all add: record_exception_def read_clock_def append_result_def log_insight_def Let_def)

lemma entered_fields [simp]:
  "trace (entered ev st) = trace st @ [ev]" "results (entered ev st) = results st"
  "probes (entered ev st) = Suc (probes st)"
  by (simp_all add: entered_def)

lemma in_context_fields [simp]:
  "trace (in_context ev st) = trace st @ [ev, NewContext (probes st)]"
  "results (in_context ev st) = results st"
  "probes (in_context ev st) = Suc (probes st)"
  by (simp_all add: in_context_def)

lemma retry_state_fields [simp]:
  "trace (retry_state c st) = trace st @ [CloseContext c, Sleep RetryWait 5]"
  "results (retry_state c st) = results st"
  "probes (retry_state c st) = probes st"
  by (simp_all add: retry_state_def)

lemma inner_events_filters:
  assumes "list_all inner_event evs"
  shows "list_all (call_event s) evs \<and> filter is_test_attempt evs = [] \<and>
    filter is_retry_wait evs = [] \<and> filter is_inter_sleep evs = []"
proof -
  have "inner_event ev \<Longrightarrow> call_event s ev \<and> \<not> is_test_attempt ev \<and> \<not> is_retry_wait ev \<and> \<not> is_inter_sleep ev" for ev
    by (cases ev) auto
  with assms show ?thesis
    by (auto simp: list_all_iff filter_empty_conv)
qed

lemma body_quiet:
  "probe_steps e s (in_context ev st) = out \<Longrightarrow> quiet_outcome (in_context ev st) e s out"
  using probe_steps_outcome[OF quiet_refl] by auto

lemma quiet_stepD:
  "quiet_step st st' \<Longrightarrow>
     probes st' = probes st \<and> results st' = results st \<and>
     (\<exists>evs. trace st' = trace st @ evs \<and> list_all inner_event evs)"
  by (simp add: quiet_step_def)

lemma call_summary_direct:
  assumes q: "quiet_step (in_context (TestAttempt s a) st) st2"
    and t: "trace st1 = trace st2 @ (if closed then [CloseContext (probes st)] else [])"
    and p: "probes st1 = probes st2"
  shows "call_summary s a st st1"
proof -
  from quiet_stepD[OF q] obtain evs where
    e: "trace st2 = trace (in_context (TestAttempt s a) st) @ evs" "list_all inner_event evs"
    and pr: "probes st2 = Suc (probes st)" by auto
  show ?thesis
    unfolding call_summary_def
    using e pr t p inner_events_filters[OF e(2), where s = s]
    by (intro exI[of _ "[TestAttempt s a, NewContext (probes st)] @ evs @
          (if closed then [CloseContext (probes st)] else [])"])
       (simp add: call_trace_def)
qed

lemma call_summary_again:
  assumes q: "quiet_step (in_context (TestAttempt s a) st) st2" and a: "a < 2"
    and ih: "call_summary s (a + 1) (retry_state (probes st) st2) st3"
    and t: "trace st1 = trace st3 @ (if closed then [CloseContext (probes st)] else [])"
    and p: "probes st1 = probes st3"
  shows "call_summary s a st st1"
proof -
  from quiet_stepD[OF q] obtain evs where
    e: "trace st2 = trace (in_context (TestAttempt s a) st) @ evs" "list_all inner_event evs"
    and pr: "probes st2 = Suc (probes st)" by auto
  from ih obtain evs3 where
    e3: "trace st3 = trace (retry_state (probes st) st2) @ evs3" "call_trace s (a + 1) evs3"
    "probes st3 = probes (retry_state (probes st) st2) + length (filter is_test_attempt evs3)"
    by (auto simp: call_summary_def)
  show ?thesis
    unfolding call_summary_def
    using e pr t p e3 a inner_events_filters[OF e(2), where s = s]
    by (intro exI[of _ "[TestAttempt s a, NewContext (probes st)] @ evs @
          [CloseContext (probes st), Sleep RetryWait 5] @ evs3 @
          (if closed then [CloseContext (probes st)] else [])"])
       (auto simp: call_trace_def)
qed

lemma body_quiet_step:
  assumes "probe_steps e s (in_context ev st) = out"
    and "out = Classified b ns u logs st2 \<or> out = Raised x logs st2 \<or> out = ScopeIssue logs u st2"
  shows "quiet_step (in_context ev st) st2"
  using body_quiet[OF assms(1)] assms(2) by (auto simp: quiet_outcome_def)

lemma tswl_trace:
  "call_summary s a st (snd (test_strategy_with_learning env s a st))"
proof (rule tswl_rule[where P = "\<lambda>a st res. call_summary s a st (snd res)"])
  fix a :: int and st :: adaptive_tester and x :: string
  show "call_summary s a st (snd (Some x, entered (TestAttempt s a) st))"
    unfolding call_summary_def
    by (intro exI[of _ "[TestAttempt s a]"]) (simp add: call_trace_def)
  show "call_summary s a st (snd (Some x, in_context (TestAttempt s a) st))"
    unfolding call_summary_def
    by (intro exI[of _ "[TestAttempt s a, NewContext (probes st)]"]) (simp add: call_trace_def)
next
  fix a :: int and st :: adaptive_tester and b ns u logs st2
  assume "probe_steps (env (probes st)) s (in_context (TestAttempt s a) st) = Classified b ns u logs st2"
  from body_quiet_step[OF this] have "quiet_step (in_context (TestAttempt s a) st) st2" by simp
  then show "call_summary s a st
      (snd (finally_close (env (probes st)) (probes st) (finish_attempt s a b u logs ns st2)))"
    by (rule call_summary_direct[where closed = "close_r (env (probes st)) = None"]) simp_all
next
  fix a :: int and st :: adaptive_tester and x logs st2
  assume "probe_steps (env (probes st)) s (in_context (TestAttempt s a) st) = Raised x logs st2"
  from body_quiet_step[OF this] have "quiet_step (in_context (TestAttempt s a) st) st2" by simp
  then show "call_summary s a st
      (snd (finally_close (env (probes st)) (probes st) (record_exception s a x logs st2)))"
    by (rule call_summary_direct[where closed = "close_r (env (probes st)) = None"]) simp_all
next
  fix a :: int and st :: adaptive_tester and logs u st2
  assume "probe_steps (env (probes st)) s (in_context (TestAttempt s a) st) = ScopeIssue logs u st2"
  from body_quiet_step[OF this] have q: "quiet_step (in_context (TestAttempt s a) st) st2" by simp
  then show "call_summary s a st
      (snd (finally_close (env (probes st)) (probes st)
         (finish_attempt s a False u logs no_redirect_notes st2)))"
    by (rule call_summary_direct[where closed = "close_r (env (probes st)) = None"]) simp_all
  fix x :: string
  from q show "call_summary s a st
      (snd (finally_close (env (probes st)) (probes st) (record_exception s a x logs st2)))"
    by (rule call_summary_direct[where closed = "close_r (env (probes st)) = None"]) simp_all
next
  fix a :: int and st :: adaptive_tester and logs u st2 st3
  assume ps: "probe_steps (env (probes st)) s (in_context (TestAttempt s a) st) = ScopeIssue logs u st2"
    and a: "a < 2" and ih: "call_summary s (a + 1) (retry_state (probes st) st2) (snd (None :: string option, st3))"
  from body_quiet_step[OF ps] have q: "quiet_step (in_context (TestAttempt s a) st) st2"
    by simp
  show "call_summary s a st (snd (finally_close (env (probes st)) (probes st) st3))"
    using ih
    by (intro call_summary_again[OF q a, where ?st3.0 = st3
          and closed = "close_r (env (probes st)) = None"]) simp_all
next
  fix a :: int and st :: adaptive_tester and logs u st2 st3 and x :: string
  assume ps: "probe_steps (env (probes st)) s (in_context (TestAttempt s a) st) = ScopeIssue logs u st2"
    and a: "a < 2" and ih: "call_summary s (a + 1) (retry_state (probes st) st2) (snd (Some x, st3))"
  from body_quiet_step[OF ps] have q: "quiet_step (in_context (TestAttempt s a) st) st2"
    by simp
  show "call_summary s a st
      (snd (finally_close (env (probes st)) (probes st) (record_exception s a x logs st3)))"
    using ih
    by (intro call_summary_again[OF q a, where ?st3.0 = st3
          and closed = "close_r (env (probes st)) = None"]) simp_all
qed

lemma exception_entry: "adaptive_entry e s (adaptive_exception_result s a t x logs)"
  unfolding adaptive_entry_def by blast

lemma entry_intro:
  "u = url_after_click e \<Longrightarrow>
   (b \<longleftrightarrow> u \<noteq> request_url s (cache_buster e) \<and> substr_in ''simpleswap.io'' u) \<Longrightarrow>
   adaptive_entry e s (adaptive_result s a t b u logs ns)"
  unfolding adaptive_entry_def by blast

lemma classified_entry:
  assumes "quiet_outcome st0 e s (Classified b ns u logs st2)"
  shows "adaptive_entry e s (adaptive_result s a t b u logs ns)"
  using assms by (intro entry_intro) (simp_all add: quiet_outcome_def)

lemma scope_entry:
  assumes "quiet_outcome st0 e s (ScopeIssue logs u st2)"
  shows "adaptive_entry e s (adaptive_result s a t False u logs ns)"
  using assms by (intro entry_intro) (simp_all add: quiet_outcome_def)

lemma summary_direct:
  assumes q: "quiet_step (in_context (TestAttempt s a) st) st2"
    and r: "results st1 = results st2 @ [r]" and p: "probes st1 = probes st2"
    and e: "adaptive_entry (env (probes st)) s r"
  shows "result_summary env s st (finally_close (env (probes st)) (probes st) st1)"
  using quiet_stepD[OF q] r p e
  by (auto simp: result_summary_def closes_def split: option.splits)

lemma tswl_results:
  "result_summary env s st (test_strategy_with_learning env s a st)"
proof (rule tswl_rule[where P = "\<lambda>a st res. result_summary env s st res"])
  fix a :: int and st :: adaptive_tester and x :: string
  assume "new_context_r (env (probes st)) = Some x"
  then show "result_summary env s st (Some x, entered (TestAttempt s a) st)"
    by (simp add: result_summary_def)
next
  fix a :: int and st :: adaptive_tester and x :: string
  assume "new_context_r (env (probes st)) = None" "new_page_r (env (probes st)) = Some x"
  then show "result_summary env s st (Some x, in_context (TestAttempt s a) st)"
    by (simp add: result_summary_def)
next
  fix a :: int and st :: adaptive_tester and b ns u logs st2
  assume ps: "probe_steps (env (probes st)) s (in_context (TestAttempt s a) st) = Classified b ns u logs st2"
  from body_quiet_step[OF ps] have q: "quiet_step (in_context (TestAttempt s a) st) st2" by simp
  from classified_entry[OF body_quiet[OF ps]]
  have "adaptive_entry (env (probes st)) s (adaptive_result s a (ticks st2) b u logs ns)" .
  with q show "result_summary env s st
      (finally_close (env (probes st)) (probes st) (finish_attempt s a b u logs ns st2))"
    by (intro summary_direct[where ?st2.0 = st2]) simp_all
next
  fix a :: int and st :: adaptive_tester and x logs st2
  assume ps: "probe_steps (env (probes st)) s (in_context (TestAttempt s a) st) = Raised x logs st2"
  from body_quiet_step[OF ps] have q: "quiet_step (in_context (TestAttempt s a) st) st2" by simp
  with exception_entry[of "env (probes st)" s a "Suc (ticks st2)" x logs]
  show "result_summary env s st
      (finally_close (env (probes st)) (probes st) (record_exception s a x logs st2))"
    by (intro summary_direct[where ?st2.0 = st2]) simp_all
next
  fix a :: int and st :: adaptive_tester and logs u st2
  assume ps: "probe_steps (env (probes st)) s (in_context (TestAttempt s a) st) = ScopeIssue logs u st2"
  from body_quiet_step[OF ps] have q: "quiet_step (in_context (TestAttempt s a) st) st2" by simp
  from scope_entry[OF body_quiet[OF ps]]
  have "adaptive_entry (env (probes st)) s
      (adaptive_result s a (ticks st2) False u logs no_redirect_notes)" .
  with q show "result_summary env s st
      (finally_close (env (probes st)) (probes st)
         (finish_attempt s a False u logs no_redirect_notes st2))"
    by (intro summary_direct[where ?st2.0 = st2]) simp_all
  fix x :: string
  from q exception_entry[of "env (probes st)" s a "Suc (ticks st2)" x logs]
  show "result_summary env s st
      (finally_close (env (probes st)) (probes st) (record_exception s a x logs st2))"
    by (intro summary_direct[where ?st2.0 = st2]) simp_all
next
  fix a :: int and st :: adaptive_tester and logs u st2 st3
  assume ps: "probe_steps (env (probes st)) s (in_context (TestAttempt s a) st) = ScopeIssue logs u st2"
    and ih: "result_summary env s (retry_state (probes st) st2) (None, st3)"
  from body_quiet_step[OF ps] have q: "quiet_step (in_context (TestAttempt s a) st) st2" by simp
  from ih obtain rs where r: "probes st2 < probes st3" "results st3 = results st2 @ rs"
    "length rs \<le> probes st3 - probes st2" "closes env \<longrightarrow> length rs = 1"
    "list_all (adaptive_entry (env (probes st3 - 1)) s) rs"
    by (auto simp: result_summary_def)
  from quiet_stepD[OF q] have p2: "probes st2 = Suc (probes st)" "results st2 = results st" by auto
  with r
  show "result_summary env s st (finally_close (env (probes st)) (probes st) st3)"
    by (auto simp: result_summary_def closes_def split: option.splits)
next
  fix a :: int and st :: adaptive_tester and logs u st2 st3 and x :: string
  assume ps: "probe_steps (env (probes st)) s (in_context (TestAttempt s a) st) = ScopeIssue logs u st2"
    and ih: "result_summary env s (retry_state (probes st) st2) (Some x, st3)"
  from body_quiet_step[OF ps] have q: "quiet_step (in_context (TestAttempt s a) st) st2" by simp
  from ih obtain rs where r: "probes st2 < probes st3" "results st3 = results st2 @ rs"
    "length rs \<le> probes st3 - probes st2" "closes env \<longrightarrow> length rs = 0"
    "list_all (adaptive_entry (env (probes st3 - 1)) s) rs"
    by (auto simp: result_summary_def)
  from quiet_stepD[OF q] have p2: "probes st2 = Suc (probes st)" "results st2 = results st" by auto
  with r
  show "result_summary env s st
      (finally_close (env (probes st)) (probes st) (record_exception s a x logs st3))"
    by (auto simp: result_summary_def closes_def exception_entry split: option.splits)
qed

lemma test_strategy_no_context:
  "new_context_r (env (probes st)) = Some x \<Longrightarrow>
   test_strategy env s st = (Some x, entered (TestStrategy s) st)"
  by (simp add: test_strategy_def entered_def Let_def)

lemma test_strategy_no_page:
  "new_context_r (env (probes st)) = None \<Longrightarrow> new_page_r (env (probes st)) = Some x \<Longrightarrow>
   test_strategy env s st = (Some x, in_context (TestStrategy s) st)"
  by (simp add: test_strategy_def entered_def in_context_def Let_def)

lemma test_strategy_completes:
  "new_context_r (env (probes st)) = None \<Longrightarrow> new_page_r (env (probes st)) = None \<Longrightarrow>
   basic_steps (env (probes st)) s (in_context (TestStrategy s) st) = (None, st2) \<Longrightarrow>
   test_strategy env s st =
     finally_close (env (probes st)) (probes st)
        (read_clock (append_result
           (basic_result s (ticks st2) (url_at_result (env (probes st)))
              (logs_after_click (env (probes st)) @ logs_monitor (env (probes st)))) st2))"
  by (simp add: test_strategy_def entered_def in_context_def Let_def)

lemma test_strategy_catches:
  "new_context_r (env (probes st)) = None \<Longrightarrow> new_page_r (env (probes st)) = None \<Longrightarrow>
   basic_steps (env (probes st)) s (in_context (TestStrategy s) st) = (Some x, st2) \<Longrightarrow>
   test_strategy env s st =
     finally_close (env (probes st)) (probes st)
        (read_clock (append_result (basic_exception_result s (ticks st2) x) st2))"
  by (simp add: test_strategy_def entered_def in_context_def Let_def)

lemma append_result_fields [simp]:
  "trace (append_result r st) = trace st" "probes (append_result r st) = probes st"
  "results (append_result r st) = results st @ [r]" "ticks (append_result r st) = ticks st"
  by (simp_all add: append_result_def)

lemma read_clock_fields [simp]:
  "trace (read_clock st) = trace st" "probes (read_clock st) = probes st"
  "results (read_clock st) = results st" "ticks (read_clock st) = Suc (ticks st)"
  by (simp_all add: read_clock_def)

lemma test_strategy_summary: "basic_summary env s st (test_strategy env s st)"
proof (cases "new_context_r (env (probes st))")
  case (Some x)
  from test_strategy_no_context[where env = env and st = st, OF this] show ?thesis
    by (simp add: basic_summary_def Some)
next
  case nc: None
  show ?thesis
  proof (cases "new_page_r (env (probes st))")
    case (Some x)
    from test_strategy_no_page[where env = env and st = st, OF nc this] show ?thesis
      by (simp add: basic_summary_def Some nc)
  next
    case np: None
    obtain out st2 where b: "basic_steps (env (probes st)) s (in_context (TestStrategy s) st) = (out, st2)"
      by (cases "basic_steps (env (probes st)) s (in_context (TestStrategy s) st)")
    from basic_steps_quiet[OF quiet_refl b] have q: "quiet_step (in_context (TestStrategy s) st) st2" .
    from quiet_stepD[OF q] obtain evs where
      e: "trace st2 = trace (in_context (TestStrategy s) st) @ evs" "list_all inner_event evs"
      and p: "probes st2 = Suc (probes st)" "results st2 = results st" by auto
    from inner_events_filters[OF e(2), where s = s] have f: "filter is_inter_sleep evs = []" by simp
    show ?thesis
    proof (cases out)
      case None
      with test_strategy_completes[where env = env and st = st, OF nc np] b e p f show ?thesis
        by (auto simp: basic_summary_def basic_entry_def split: option.splits)
    next
      case (Some x)
      with test_strategy_catches[where env = env and st = st, OF nc np] b e p f show ?thesis
        by (auto simp: basic_summary_def basic_entry_def split: option.splits)
    qed
  qed
qed

lemma run_strategies_results:
  "\<exists>rs. results (snd (run_strategies env ss st)) = results st @ rs \<and>
        list_all (\<lambda>r. \<exists>e s. basic_entry e s r) rs"
proof (induction ss arbitrary: st)
  case Nil
  then show ?case by simp
next
  case (Cons s ss)
  obtain out st1 where t: "test_strategy env s st = (out, st1)"
    by (cases "test_strategy env s st")
  from test_strategy_summary[of env s st] t obtain rs where
    rs: "results st1 = results st @ rs" "list_all (basic_entry (env (probes st)) s) rs"
    by (auto simp: basic_summary_def)
  then have rs': "list_all (\<lambda>r. \<exists>e s. basic_entry e s r) rs"
    by (auto simp: list_all_iff)
  show ?case
  proof (cases out)
    case (Some x)
    with t rs rs' show ?thesis by auto
  next
    case None
    from Cons.IH[of "emit (Sleep InterStrategy 2) st1"] obtain rs2 where
      "results (snd (run_strategies env ss (emit (Sleep InterStrategy 2) st1))) = results st1 @ rs2"
      "list_all (\<lambda>r. \<exists>e s. basic_entry e s r) rs2" by auto
    with None t rs rs' show ?thesis
      by (intro exI[of _ "rs @ rs2"]) simp
  qed
qed

lemma run_strategies_complete:
  assumes "\<forall>k. new_context_r (env k) = None \<and> new_page_r (env k) = None \<and> close_r (env k) = None"
  shows "fst (run_strategies env ss st) = None \<and>
     length (results (snd (run_strategies env ss st))) = length (results st) + length ss \<and>
     length (filter is_inter_sleep (trace (snd (run_strategies env ss st)))) =
       length (filter is_inter_sleep (trace st)) + length ss"
proof (induction ss arbitrary: st)
  case Nil
  then show ?case by simp
next
  case (Cons s ss)
  obtain out st1 where t: "test_strategy env s st = (out, st1)"
    by (cases "test_strategy env s st")
  from test_strategy_summary[of env s st] t assms have o: "out = None"
    by (cases out) (auto simp: basic_summary_def)
  from test_strategy_summary[of env s st] t o assms have
    "length (results st1) = Suc (length (results st))"
    "length (filter is_inter_sleep (trace st1)) = length (filter is_inter_sleep (trace st))"
    by (auto simp: basic_summary_def)
  with Cons.IH[of "emit (Sleep InterStrategy 2) st1"] t o show ?case by simp
qed

lemma analyze_patterns_fields [simp]:
  "trace (analyze_patterns st) = trace st" "probes (analyze_patterns st) = probes st"
  "results (analyze_patterns st) = results st"
  by (simp_all add: analyze_patterns_def log_insight_def Let_def)

lemma tswl_call:
  assumes "test_strategy_with_learning env s a st = (out, st')"
  obtains evs rs where
    "trace st' = trace st @ evs" "call_trace s a evs"
    "probes st' = probes st + length (filter is_test_attempt evs)"
    "results st' = results st @ rs" "length rs \<le> length (filter is_test_attempt evs)"
    "closes env \<longrightarrow> length rs = (if out = None then 1 else 0)"
    "list_all (adaptive_entry (env (probes st' - 1)) s) rs"
    "out = None \<or> new_context_r (env (probes st)) \<noteq> None \<or> new_page_r (env (probes st)) \<noteq> None
       \<or> close_r (env (probes st)) \<noteq> None"
proof -
  from tswl_trace[of s a st env] assms obtain evs where
    e: "trace st' = trace st @ evs" "call_trace s a evs"
    "probes st' = probes st + length (filter is_test_attempt evs)"
    by (auto simp: call_summary_def)
  from tswl_results[of env s st a] assms obtain rs where
    r: "results st' = results st @ rs" "length rs \<le> probes st' - probes st"
    "closes env \<longrightarrow> length rs = (if out = None then 1 else 0)"
    "list_all (adaptive_entry (env (probes st' - 1)) s) rs"
    and o: "out = None \<or> new_context_r (env (probes st)) \<noteq> None \<or> new_page_r (env (probes st)) \<noteq> None
       \<or> close_r (env (probes st)) \<noteq> None"
    by (cases out) (auto simp: result_summary_def)
  from r(2) e(3) have "length rs \<le> length (filter is_test_attempt evs)" by simp
  from e r(1) this r(3,4) o show ?thesis by (rule that)
qed

lemma entry_has_strategy: "adaptive_entry e s r \<Longrightarrow> has_strategy s' r \<longleftrightarrow> s' = s"
  by (auto simp: adaptive_entry_def has_strategy_def dict_get_def
      adaptive_result_def adaptive_exception_result_def)

lemma call_trace_labels:
  assumes "call_trace s a evs"
  shows "filter (is_attempt_of s') evs = (if s' = s then filter is_test_attempt evs else [])"
proof -
  have "call_event s ev \<Longrightarrow> is_attempt_of s' ev \<longleftrightarrow> s' = s \<and> is_test_attempt ev" for ev
    by (cases ev) auto
  with assms show ?thesis
    by (auto simp: call_trace_def list_all_iff filter_empty_conv intro!: filter_cong)
qed

lemma call_trace_inter: "call_trace s a evs \<Longrightarrow> filter is_inter_sleep evs = []"
proof -
  have "call_event s ev \<Longrightarrow> \<not> is_inter_sleep ev" for ev
    by (cases ev) auto
  then show "call_trace s a evs \<Longrightarrow> filter is_inter_sleep evs = []"
    by (auto simp: call_trace_def list_all_iff filter_empty_conv)
qed

lemma call_trace_bound: "call_trace s 1 evs \<Longrightarrow> length (filter is_test_attempt evs) \<le> 2"
  by (simp add: call_trace_def)

lemma after_strategy_fields [simp]:
  "results (after_strategy n i st) = results st" "probes (after_strategy n i st) = probes st"
  "trace (after_strategy n i st) = trace st @ (if int i < int n - 1 then [Sleep InterStrategy 3] else [])"
  by (simp_all add: after_strategy_def Let_def)



lemma adaptive_loop_length:
  assumes "closes env" and "fst (adaptive_loop env n i ss st) = None"
  shows "length (results (snd (adaptive_loop env n i ss st))) = length (results st) + length ss"
  using assms(2)
proof (induction ss arbitrary: i st)
  case Nil
  then show ?case by simp
next
  case (Cons s ss)
  obtain out st1 where t: "test_strategy_with_learning env s 1 st = (out, st1)"
    by (cases "test_strategy_with_learning env s 1 st")
  from Cons.prems t have o: "out = None"
    by (cases out) simp_all
  from tswl_call[OF t] assms(1) o obtain rs where
    "results st1 = results st @ rs" "length rs = 1"
    by metis
  then have "length (results st1) = Suc (length (results st))" by simp
  with Cons.IH[of "Suc i" "after_strategy n i st1"] Cons.prems t o show ?case
    by simp
qed

lemma adaptive_loop_returns:
  assumes "\<forall>k. new_context_r (env k) = None \<and> new_page_r (env k) = None \<and> close_r (env k) = None"
  shows "fst (adaptive_loop env n i ss st) = None"
proof (induction ss arbitrary: i st)
  case Nil
  then show ?case by simp
next
  case (Cons s ss)
  obtain out st1 where t: "test_strategy_with_learning env s 1 st = (out, st1)"
    by (cases "test_strategy_with_learning env s 1 st")
  from tswl_call[OF t] assms have o: "out = None" by metis
  with Cons.IH[of "Suc i" "after_strategy n i st1"] t show ?case
    by simp
qed

lemma adaptive_loop_inter:
  assumes "fst (adaptive_loop env n i ss st) = None" and "i + length ss = n"
  shows "length (filter is_inter_sleep (trace (snd (adaptive_loop env n i ss st)))) =
     length (filter is_inter_sleep (trace st)) + (length ss - 1)"
  using assms
proof (induction ss arbitrary: i st)
  case Nil
  then show ?case by simp
next
  case (Cons s ss)
  obtain out st1 where t: "test_strategy_with_learning env s 1 st = (out, st1)"
    by (cases "test_strategy_with_learning env s 1 st")
  from Cons.prems t have o: "out = None"
    by (cases out) simp_all
  from tswl_call[OF t] obtain evs where c: "trace st1 = trace st @ evs" "call_trace s 1 evs"
    by metis
  from call_trace_inter[OF c(2)] c(1)
  have f: "filter is_inter_sleep (trace st1) = filter is_inter_sleep (trace st)" by simp
  have s: "(int i < int n - 1) = (ss \<noteq> [])" using Cons.prems(2) by (cases ss) auto
  from Cons.prems t o have "fst (adaptive_loop env n (Suc i) ss (after_strategy n i st1)) = None"
    by simp
  from Cons.IH[OF this] Cons.prems(2) t o f s show ?case
    by (cases ss) simp_all
qed

lemma adaptive_loop_labels:
  "length (filter (is_attempt_of s') (trace (snd (adaptive_loop env n i ss st)))) \<le>
     length (filter (is_attempt_of s') (trace st)) + 2 * count_list ss s' \<and>
   length (filter (has_strategy s') (results (snd (adaptive_loop env n i ss st)))) \<le>
     length (filter (has_strategy s') (results st)) + 2 * count_list ss s'"
proof (induction ss arbitrary: i st)
  case Nil
  then show ?case by simp
next
  case (Cons s ss)
  obtain out st1 where t: "test_strategy_with_learning env s 1 st = (out, st1)"
    by (cases "test_strategy_with_learning env s 1 st")
  from tswl_call[OF t] obtain evs rs where
    c: "trace st1 = trace st @ evs" "call_trace s 1 evs"
    "results st1 = results st @ rs" "length rs \<le> length (filter is_test_attempt evs)"
    "list_all (adaptive_entry (env (probes st1 - 1)) s) rs"
    by metis
  have a: "length (filter (is_attempt_of s') evs) \<le> (if s' = s then 2 else 0)"
    using call_trace_labels[OF c(2), of s'] call_trace_bound[OF c(2)] by simp
  have "filter (has_strategy s') rs = (if s' = s then rs else [])"
    using c(5) by (auto simp: list_all_iff filter_empty_conv entry_has_strategy intro!: filter_True)
  with c(4) call_trace_bound[OF c(2)]
  have r: "length (filter (has_strategy s') rs) \<le> (if s' = s then 2 else 0)"
    by simp
  show ?case
  proof (cases out)
    case (Some x)
    with t c a r show ?thesis by (cases "s' = s") simp_all
  next
    case None
    have i: "filter (is_attempt_of s') (if int i < int n - 1 then [Sleep InterStrategy 3] else []) = []"
      by simp
    from Cons.IH[of "Suc i" "after_strategy n i st1"] None t c a r i show ?thesis
      by (cases "s' = s") simp_all
  qed
qed

lemma scan_inputs_raises: "fst (scan_inputs s els af st) = None \<longleftrightarrow> list_all (\<lambda>v. \<not> isl v) els"
  by (induction s els af st rule: scan_inputs.induct) auto

lemma check_page_text_provider:
  "fst (snd (check_page_text s t af pf st)) \<longleftrightarrow> pf \<or> substr_in ''mercuryo'' (lower t)"
  by (simp add: check_page_text_def Let_def)

lemma poll_adaptive_provider:
  "fst (snd (poll_adaptive s pe (af, pf, st))) \<longleftrightarrow> pf \<or> names_mercuryo pe"
proof (cases "inputs_r pe")
  case (Inl x)
  then show ?thesis by (simp add: poll_adaptive_def names_mercuryo_def polled_text_def Let_def)
next
  case (Inr els)
  obtain out af1 st1 where sc: "scan_inputs s els af (emit (Sleep Poll 1) st) = (out, af1, st1)"
    by (metis prod_cases3)
  from scan_inputs_raises[of s els af "emit (Sleep Poll 1) st"] sc
  have r: "out = None \<longleftrightarrow> list_all (\<lambda>v. \<not> isl v) els" by simp
  show ?thesis
  proof (cases out)
    case (Some x)
    with Inr sc r show ?thesis
      by (simp add: poll_adaptive_def names_mercuryo_def polled_text_def Let_def)
  next
    case None
    with Inr sc r show ?thesis
      by (cases "content_r pe")
         (simp_all add: poll_adaptive_def names_mercuryo_def polled_text_def Let_def
            check_page_text_provider)
  qed
qed

lemma monitor_loop_provider:
  "fst (snd (monitor_loop s ps ks (af, pf, st))) \<longleftrightarrow> pf \<or> (\<exists>i \<in> set ks. names_mercuryo (ps i))"
proof (induction ks arbitrary: af pf st)
  case Nil
  then show ?case by simp
next
  case (Cons k ks)
  obtain af1 pf1 st1 where p: "poll_adaptive s (ps k) (af, pf, st) = (af1, pf1, st1)"
    by (metis prod_cases3)
  from poll_adaptive_provider[of s "ps k" af pf st] p have "pf1 \<longleftrightarrow> pf \<or> names_mercuryo (ps k)"
    by simp
  with Cons.IH[of af1 pf1 st1] p show ?case by auto
qed

lemma monitor_flags_provider:
  "fst (snd (monitor_flags e s st)) \<longleftrightarrow> (\<exists>i < 15. names_mercuryo (polls e i))"
  unfolding monitor_flags_def monitor_loop_provider by auto

lemma poll_basic_completes:
  "\<forall>i \<in> set ks. query_r (ps i) = None \<Longrightarrow>
   poll_basic ps ks st = (None, st\<lparr>trace := trace st @ replicate (length ks) (Sleep Poll 1)\<rparr>)"
proof (induction ks arbitrary: st)
  case Nil
  then show ?case by simp
next
  case (Cons k ks)
  then show ?case by (simp add: emit_def replicate_app_Cons_same)
qed

lemma monitor_page_screenshot:
  assumes "\<forall>i < 10. query_r (polls e i) = None" and "screenshot_r e = None"
  shows "fst (monitor_simpleswap_page e s st) = None \<and>
     last (trace (snd (monitor_simpleswap_page e s st))) =
       Screenshot (''/tmp/simpleswap_'' @ s @ ''_'' @ str_of_int (shot_time e) @ ''.png'') None"
proof -
  have "\<forall>i \<in> set [0..<10]. query_r (polls e i) = None" using assms(1) by simp
  from poll_basic_completes[OF this]
  have "poll_basic (polls e) [0..<10] st =
      (None, st\<lparr>trace := trace st @ replicate (length [0..<10]) (Sleep Poll 1)\<rparr>)" .
  then show ?thesis
    unfolding monitor_simpleswap_page_def using assms(2)
    by (simp add: screenshot_path_def del: upt.simps replicate.simps)
qed

lemma monitor_learning_screenshot:
  assumes "screenshot_r e = None"
  shows "fst (monitor_simpleswap_with_learning e s st) = None \<and>
     last (trace (snd (monitor_simpleswap_with_learning e s st))) =
       Screenshot (''/tmp/simpleswap_'' @ s @ ''_'' @ str_of_int (shot_time e) @ ''.png'') (Some True)"
  using assms
  by (simp add: monitor_simpleswap_with_learning_def screenshot_path_def Let_def split: prod.splits)

lemma final_analysis_recommendations:
  "recommendations (final_analysis st) =
     (if ''JavaScript variable scope issue detected'' \<in> insight ` set (learned_insights st)
      then [''Fix workingUrl variable initialization''] else []) @
     (if ''CSP blocks iframe embedding'' \<in> insight ` set (learned_insights st)
      then [''Use popup window instead of iframe''] else [])"
  by (simp add: final_analysis_def Let_def)

subsection \<open>The example browsers, evaluated\<close>

lemma request_url_basic:
  "request_url ''basic'' 1700000000 =
     ''https://blinds123.github.io/simpleswap-realtime-test?strategy=basic&t=1700000000''"
  by (simp add: request_url_def base_url_def str_of_int_def digits.simps digit_char_def)

lemma scope_error_is_error: "is_error ''[error] ReferenceError: workingUrl is not defined''"
  by (simp add: is_error_def lower_def lower_char_def)

lemma scope_error_findings:
  "analyze_console_logs [''[error] ReferenceError: workingUrl is not defined''] =
     [''Found: JavaScript variable not properly initialized'']"
  by (simp add: analyze_console_logs_def error_patterns_def)

lemma scope_error_steps:
  "probe_steps scope_error_page ''basic'' st =
     ScopeIssue [''[error] ReferenceError: workingUrl is not defined'']
       ''https://blinds123.github.io/simpleswap-realtime-test?strategy=basic&t=1700000000''
       (log_insight ''JavaScript variable scope issue detected''
         (log_insight ''Found: JavaScript variable not properly initialized''
           (log_insight ''No redirect occurred in basic - checking for errors''
             (emit (Sleep AfterClick 3)
               (log_insight ''No debug output in basic - may indicate loading issue''
                 (wait_for_cache_update (length (results st)) st))))))"
  by (simp add: probe_steps_def check_redirect_def no_redirect_steps_def scope_error_page_def
      calm_page_def request_url_basic scope_error_is_error scope_error_findings tail_slice_def Let_def)

lemma tswl_unfold:
  "test_strategy_with_learning env s a st =
     (case new_context_r (env (probes st)) of
        Some x \<Rightarrow> (Some x, entered (TestAttempt s a) st)
      | None \<Rightarrow>
     (case new_page_r (env (probes st)) of
        Some x \<Rightarrow> (Some x, in_context (TestAttempt s a) st)
      | None \<Rightarrow>
     (case probe_steps (env (probes st)) s (in_context (TestAttempt s a) st) of
        Classified success ns current_url logs st2 \<Rightarrow>
          finally_close (env (probes st)) (probes st)
            (finish_attempt s a success current_url logs ns st2)
      | Raised x logs st2 \<Rightarrow>
          finally_close (env (probes st)) (probes st) (record_exception s a x logs st2)
      | ScopeIssue logs url st2 \<Rightarrow>
          if a < 2 then
            (case retry_close_r (env (probes st)) of
               Some x \<Rightarrow>
                 finally_close (env (probes st)) (probes st) (record_exception s a x logs st2)
             | None \<Rightarrow>
            (case test_strategy_with_learning env s (a + 1) (retry_state (probes st) st2) of
               (None, st3) \<Rightarrow> finally_close (env (probes st)) (probes st) st3
             | (Some x, st3) \<Rightarrow>
                 finally_close (env (probes st)) (probes st) (record_exception s a x logs st3)))
          else
            finally_close (env (probes st)) (probes st)
              (finish_attempt s a False url logs no_redirect_notes st2))))"
  by (subst test_strategy_with_learning.simps)
     (simp add: entered_def in_context_def retry_state_def Let_def
        split: option.splits probe_outcome.splits)

lemma log_insight_fields [simp]:
  "trace (log_insight t st) = trace st" "probes (log_insight t st) = probes st"
  "results (log_insight t st) = results st" "ticks (log_insight t st) = Suc (ticks st)"
  "learned_insights (log_insight t st) = learned_insights st @ [\<lparr>timestamp = ticks st, insight = t\<rparr>]"
  by (simp_all add: log_insight_def)

lemma wait_for_cache_update_fields [simp]:
  "trace (wait_for_cache_update n st) = trace st @ [Sleep CacheWait (if n < 3 then 5 else 2)]"
  "probes (wait_for_cache_update n st) = probes st"
  "results (wait_for_cache_update n st) = results st" "ticks (wait_for_cache_update n st) = ticks st"
  by (simp_all add: wait_for_cache_update_def)

lemma new_adaptive_fields [simp]:
  "trace new_adaptive_tester = []" "probes new_adaptive_tester = 0"
  "results new_adaptive_tester = []" "ticks new_adaptive_tester = 0"
  "learned_insights new_adaptive_tester = []"
  by (simp_all add: new_adaptive_tester_def)

lemma in_context_ticks [simp]: "ticks (in_context ev st) = ticks st"
  by (simp add: in_context_def entered_def)

lemma retry_state_ticks [simp]: "ticks (retry_state c st) = ticks st"
  by (simp add: retry_state_def)

lemma scope_error_acquires [simp]:
  "new_context_r scope_error_page = None" "new_page_r scope_error_page = None"
  "retry_close_r scope_error_page = None" "close_r scope_error_page = None"
  by (simp_all add: scope_error_page_def calm_page_def)


lemma retry_call_trace:
  "trace (snd (test_strategy_with_learning retry_browser ''basic'' 1 new_adaptive_tester)) =
     [TestAttempt ''basic'' 1, NewContext 0, Sleep CacheWait 5, Sleep AfterClick 3, CloseContext 0,
      Sleep RetryWait 5, TestAttempt ''basic'' 2, NewContext 1, Sleep CacheWait 5,
      Sleep AfterClick 3, CloseContext 1, CloseContext 0]"
  by (simp add: tswl_unfold finally_close_def retry_browser_def scope_error_steps)

lemma retry_call_results:
  "results (snd (test_strategy_with_learning retry_browser ''basic'' 1 new_adaptive_tester)) =
     [adaptive_result ''basic'' 2 8 False
        ''https://blinds123.github.io/simpleswap-realtime-test?strategy=basic&t=1700000000''
        [''[error] ReferenceError: workingUrl is not defined''] no_redirect_notes]"
  by (simp add: tswl_unfold finally_close_def retry_browser_def scope_error_steps eval_nat_numeral)

subsection \<open>Facts used by the claims\<close>

lemma fold_log_insight_texts:
  "map insight (learned_insights (fold log_insight ts st)) = map insight (learned_insights st) @ ts"
  by (induction ts arbitrary: st) simp_all

lemma findings_are_marked: "t \<in> set (analyze_console_logs logs) \<Longrightarrow> \<exists>m. t = ''Found: '' @ m"
  by (auto simp: analyze_console_logs_def)

lemma swap_page_quiet [simp]:
  "screenshot_r swap_page = None" "query_r (polls swap_page i) = None"
  "shot_time swap_page = 1700000020"
  by (simp_all add: swap_page_def calm_page_def calm_poll_def)

lemma shot_time_text: "str_of_int 1700000020 = ''1700000020''"
  by (simp add: str_of_int_def digits.simps digit_char_def)

lemma moonpay_page_polls:
  "polled_text (polls moonpay_page i) = Some ''<p>Pay with MoonPay</p>''"
  by (simp add: polled_text_def moonpay_page_def swap_page_def calm_page_def calm_poll_def)

lemma moonpay_text_lower: "lower ''<p>Pay with MoonPay</p>'' = ''<p>pay with moonpay</p>''"
  by (simp add: lower_def lower_char_def)

lemma mercuryo_page_poll:
  "polled_text (polls mercuryo_page 3) = Some ''<b>Mercuryo</b>''"
  by (simp add: polled_text_def mercuryo_page_def swap_page_def calm_page_def calm_poll_def)

lemma mercuryo_text_lower: "lower ''<b>Mercuryo</b>'' = ''<b>mercuryo</b>''"
  by (simp add: lower_def lower_char_def)

lemma tswl_raised:
  "new_context_r (env (probes st)) = None \<Longrightarrow> new_page_r (env (probes st)) = None \<Longrightarrow>
   probe_steps (env (probes st)) s (in_context (TestAttempt s a) st) = Raised x logs st2 \<Longrightarrow>
   test_strategy_with_learning env s a st =
     finally_close (env (probes st)) (probes st) (record_exception s a x logs st2)"
  by (simp add: tswl_unfold)

lemma tswl_retry_close:
  "new_context_r (env (probes st)) = None \<Longrightarrow> new_page_r (env (probes st)) = None \<Longrightarrow>
   probe_steps (env (probes st)) s (in_context (TestAttempt s a) st) = ScopeIssue logs u st2 \<Longrightarrow>
   a < 2 \<Longrightarrow> retry_close_r (env (probes st)) = Some x \<Longrightarrow>
   test_strategy_with_learning env s a st =
     finally_close (env (probes st)) (probes st) (record_exception s a x logs st2)"
  by (simp add: tswl_unfold)

lemma tswl_retry_raises:
  "new_context_r (env (probes st)) = None \<Longrightarrow> new_page_r (env (probes st)) = None \<Longrightarrow>
   probe_steps (env (probes st)) s (in_context (TestAttempt s a) st) = ScopeIssue logs u st2 \<Longrightarrow>
   a < 2 \<Longrightarrow> retry_close_r (env (probes st)) = None \<Longrightarrow>
   test_strategy_with_learning env s (a + 1) (retry_state (probes st) st2) = (Some x, st3) \<Longrightarrow>
   test_strategy_with_learning env s a st =
     finally_close (env (probes st)) (probes st) (record_exception s a x logs st3)"
  by (simp add: tswl_unfold)

lemma test_strategy_outcome:
  "new_context_r (env (probes st)) = None \<Longrightarrow> new_page_r (env (probes st)) = None \<Longrightarrow>
   fst (test_strategy env s st) = close_r (env (probes st))"
  by (simp add: test_strategy_def Let_def split: prod.splits option.splits)

lemma tswl_outcome:
  "new_context_r (env (probes st)) = None \<Longrightarrow> new_page_r (env (probes st)) = None \<Longrightarrow>
   fst (test_strategy_with_learning env s a st) = close_r (env (probes st))"
  by (simp add: tswl_unfold split: prod.splits option.splits probe_outcome.splits)

lemma monitor_learning_outcome:
  "fst (monitor_simpleswap_with_learning e s st) = screenshot_r e"
  by (simp add: monitor_simpleswap_with_learning_def Let_def split: prod.splits option.splits)

lemma new_tester_fields [simp]:
  "trace new_tester = []" "probes new_tester = 0" "results new_tester = []" "ticks new_tester = 0"
  by (simp_all add: new_tester_def)

lemma click_fails_fields [simp]:
  "new_context_r (click_fails_browser k) = None" "new_page_r (click_fails_browser k) = None"
  "close_r (click_fails_browser k) = None"
  by (simp_all add: click_fails_browser_def swap_page_def calm_page_def)

lemma click_fails_acquires: "acquires click_fails_browser"
  by (simp add: acquires_def)

lemma click_fails_closes: "closes click_fails_browser"
  by (simp add: closes_def)


lemma stuck_retry_fields [simp]:
  "new_context_r (stuck_retry_browser k) = None" "new_page_r (stuck_retry_browser k) = None"
  "close_r (stuck_retry_browser k) = None"
  "retry_close_r (stuck_retry_browser k) = Some ''Connection closed''"
  by (simp_all add: stuck_retry_browser_def scope_error_page_def calm_page_def)

lemma stuck_retry_acquires: "acquires stuck_retry_browser"
  by (simp add: acquires_def)

lemma stuck_retry_closes: "closes stuck_retry_browser"
  by (simp add: closes_def)

lemma stuck_retry_steps:
  "probe_steps (stuck_retry_browser k) ''basic'' st = probe_steps scope_error_page ''basic'' st"
  by (simp add: probe_steps_def check_redirect_def no_redirect_steps_def stuck_retry_browser_def
      scope_error_page_def calm_page_def request_url_basic scope_error_is_error
      scope_error_findings tail_slice_def Let_def)

lemma no_close_fields [simp]:
  "new_context_r (no_close_browser k) = None" "new_page_r (no_close_browser k) = None"
  "close_r (no_close_browser k) = Some ''Connection closed''"
  by (simp_all add: no_close_browser_def swap_page_def calm_page_def)

lemma click_fails_basic_steps:
  "basic_steps (click_fails_browser k) s st =
     (Some ''Timeout 30000ms exceeded'', emit (Sleep AfterSelector 2) st)"
  by (simp add: basic_steps_def click_fails_browser_def swap_page_def calm_page_def Let_def)

lemma click_fails_probe_steps:
  "probe_steps (click_fails_browser k) s st =
     Raised ''Timeout 30000ms exceeded'' []
       (log_insight (''No debug output in '' @ s @ '' - may indicate loading issue'')
          (wait_for_cache_update (length (results st)) st))"
  by (simp add: probe_steps_def click_fails_browser_def swap_page_def calm_page_def Let_def)

lemma exception_result_fields:
  "dict_keys (basic_exception_result s t x) =
     [''strategy'', ''timestamp'', ''success'', ''error'', ''console_logs'', ''notes'']"
  "dict_get (basic_exception_result s t x) ''final_url'' = None"
  "dict_get (basic_exception_result s t x) ''success'' = Some (JBool False)"
  "dict_get (basic_exception_result s t x) ''error'' = Some (JStr x)"
  "dict_keys (adaptive_exception_result s a t x logs) =
     [''strategy'', ''attempt'', ''timestamp'', ''success'', ''error'', ''console_logs'', ''notes'']"
  "dict_get (adaptive_exception_result s a t x logs) ''final_url'' = None"
  "dict_get (adaptive_exception_result s a t x logs) ''success'' = Some (JBool False)"
  "dict_get (adaptive_exception_result s a t x logs) ''error'' = Some (JStr x)"
  by (simp_all add: dict_keys_def dict_get_def basic_exception_result_def adaptive_exception_result_def)

lemma basic_entry_rule: "basic_entry e s r \<Longrightarrow> basic_success_rule r"
  by (auto simp: basic_entry_def basic_success_rule_def dict_get_def get_success_def
      basic_result_def basic_exception_result_def)

lemma adaptive_entry_rule: "adaptive_entry e s r \<Longrightarrow> adaptive_success_rule e s r"
  by (auto simp: adaptive_entry_def adaptive_success_rule_def dict_get_def get_success_def
      adaptive_result_def adaptive_exception_result_def)

lemma success_rule_no_redirect:
  "adaptive_success_rule e s r \<Longrightarrow> url_after_click e = request_url s (cache_buster e) \<Longrightarrow>
   \<not> get_success r"
  by (auto simp: adaptive_success_rule_def split: option.splits jvalue.splits)

lemma iframe_call:
  "test_strategy iframe_browser ''iframe'' new_tester =
     (None, emit (CloseContext 0) (read_clock (append_result
        (basic_result ''iframe'' 0
           ''https://blinds123.github.io/simpleswap-realtime-test?strategy=iframe'' [])
        (emit (Sleep IframeWait 3) (emit (Sleep AfterSelector 2)
           (in_context (TestStrategy ''iframe'') new_tester))))))"
  by (simp add: test_strategy_def finally_close_def basic_steps_def iframe_branch_def
      iframe_browser_def calm_page_def in_context_def entered_def Let_def)

lemma scope_error_urls:
  "url_after_click scope_error_page = request_url ''basic'' (cache_buster scope_error_page)"
  by (simp add: scope_error_page_def calm_page_def request_url_basic)

lemma retry_call_probes:
  "probes (snd (test_strategy_with_learning retry_browser ''basic'' 1 new_adaptive_tester)) = 2"
  by (simp add: tswl_unfold finally_close_def retry_browser_def scope_error_steps)

lemma iframe_run_results:
  "results (snd (run_strategies iframe_browser [''iframe''] new_tester)) =
     [basic_result ''iframe'' 0
        ''https://blinds123.github.io/simpleswap-realtime-test?strategy=iframe'' []]"
  by (simp add: iframe_call)



lemma count_list_distinct: "distinct xs \<Longrightarrow> count_list xs x \<le> 1"
  by (induction xs) (auto simp: count_notin)

lemma strategies_distinct: "distinct strategies"
  by (simp add: strategies_def)

lemma run_strategies_last:
  "ss \<noteq> [] \<Longrightarrow> fst (run_strategies env ss st) = None \<Longrightarrow>
   last (trace (snd (run_strategies env ss st))) = Sleep InterStrategy 2"
proof (induction ss arbitrary: st)
  case Nil
  then show ?case by simp
next
  case (Cons s ss)
  obtain out st1 where t: "test_strategy env s st = (out, st1)"
    by (cases "test_strategy env s st")
  with Cons.prems(2) have o: "out = None" by (cases out) simp_all
  show ?case
  proof (cases ss)
    case Nil
    with t o show ?thesis by simp
  next
    case (Cons s' ss')
    with Cons.IH[of "emit (Sleep InterStrategy 2) st1"] Cons.prems(2) t o show ?thesis by simp
  qed
qed

lemma swap_browser_acquires:
  "\<forall>k. new_context_r (swap_browser k) = None \<and> new_page_r (swap_browser k) = None \<and>
       close_r (swap_browser k) = None"
  by (simp add: swap_browser_def swap_page_def calm_page_def)

text \<open>
  The adaptive script sleeps between strategies only: a run over \<open>n\<close> strategies that
  completes has \<open>n - 1\<close> such sleeps.
\<close>

lemma adaptive_run_sleeps:
  "fst (run_adaptive_on env strats) = None \<Longrightarrow>
   length (filter is_inter_sleep (trace (snd (run_adaptive_on env strats)))) = length strats - 1"
  using adaptive_loop_inter[of env "length strats" 0 strats new_adaptive_tester]
  by (simp add: run_adaptive_on_def)

lemma request_url_iframe:
  "request_url ''iframe'' 1700000000 =
     ''https://blinds123.github.io/simpleswap-realtime-test?strategy=iframe&t=1700000000''"
  by (simp add: request_url_def base_url_def str_of_int_def digits.simps digit_char_def)

lemma scope_error_steps_iframe:
  "probe_steps scope_error_page ''iframe'' st =
     Classified False
       [''Unexpected redirect to https://blinds123.github.io/simpleswap-realtime-test?strategy=basic&t=1700000000'']
       ''https://blinds123.github.io/simpleswap-realtime-test?strategy=basic&t=1700000000''
       [''[error] ReferenceError: workingUrl is not defined'']
       (log_insight ''Unexpected redirect in iframe: https://blinds123.github.io/simpleswap-realtime-test?strategy=basic&t=1700000000''
          (emit (Sleep AfterClick 3)
             (log_insight ''No debug output in iframe - may indicate loading issue''
                (wait_for_cache_update (length (results st)) st))))"
  by (simp add: probe_steps_def check_redirect_def scope_error_page_def calm_page_def
      request_url_iframe Let_def)

lemma leaky_browser_fields [simp]:
  "new_context_r (leaky_browser k) = None"
  "new_page_r (leaky_browser k) =
     (if k = 1 then Some ''Target page, context or browser has been closed'' else None)"
  "k \<noteq> 1 \<Longrightarrow> probe_steps (leaky_browser k) = probe_steps scope_error_page"
  "retry_close_r (leaky_browser k) = None" "close_r (leaky_browser k) = None"
  by (simp_all add: leaky_browser_def scope_error_page_def calm_page_def)

lemma scope_issue_steps:
  "probe_steps scope_error_page ''basic'' st =
     ScopeIssue [''[error] ReferenceError: workingUrl is not defined'']
       ''https://blinds123.github.io/simpleswap-realtime-test?strategy=basic&t=1700000000''
       (scope_issue_state st)"
  by (simp add: scope_error_steps scope_issue_state_def)

lemma scope_issue_fields [simp]:
  "results (scope_issue_state st) = results st" "probes (scope_issue_state st) = probes st"
  "ticks (scope_issue_state st) = Suc (Suc (Suc (Suc (ticks st))))"
  by (simp_all add: scope_issue_state_def)

lemma leaky_retry_call:
  "test_strategy_with_learning leaky_browser ''basic'' 2
       (retry_state 0 (scope_issue_state (in_context (TestAttempt ''basic'' 1) new_adaptive_tester))) =
     (Some ''Target page, context or browser has been closed'',
      in_context (TestAttempt ''basic'' 2)
        (retry_state 0 (scope_issue_state (in_context (TestAttempt ''basic'' 1) new_adaptive_tester))))"
  by (simp add: tswl_unfold)

lemma leaky_run_trace:
  "trace (snd (run_adaptive_on leaky_browser [''basic'', ''iframe''])) =
     [TestAttempt ''basic'' 1, NewContext 0, Sleep CacheWait 5, Sleep AfterClick 3, CloseContext 0,
      Sleep RetryWait 5, TestAttempt ''basic'' 2, NewContext 1, CloseContext 0,
      Sleep InterStrategy 3,
      TestAttempt ''iframe'' 1, NewContext 2, Sleep CacheWait 5, Sleep AfterClick 3, CloseContext 2]"
  by (simp add: run_adaptive_on_def tswl_unfold finally_close_def scope_error_steps
      scope_error_steps_iframe eval_nat_numeral)

lemma leaky_run_returns: "fst (run_adaptive_on leaky_browser [''basic'', ''iframe'']) = None"
  by (simp add: run_adaptive_on_def tswl_unfold finally_close_def scope_error_steps
      scope_error_steps_iframe eval_nat_numeral)

lemma track_append:
  "track_contexts (xs @ ys) cs p =
     track_contexts ys (fst (track_contexts xs cs p)) (snd (track_contexts xs cs p))"
  by (induction xs cs p rule: track_contexts.induct) simp_all

lemma track_inner: "list_all inner_event evs \<Longrightarrow> track_contexts evs cs p = (cs, p)"
  by (induction evs cs p rule: track_contexts.induct) simp_all

lemma balanced_entry: "balanced [TestAttempt s a]" "balanced [TestStrategy s]"
  by (simp_all add: balanced_def)

lemma balanced_direct:
  "list_all inner_event evs \<Longrightarrow> balanced (TestAttempt s a # NewContext c # evs @ [CloseContext c])"
  "list_all inner_event evs \<Longrightarrow> balanced (TestStrategy s # NewContext c # evs @ [CloseContext c])"
  by (simp_all add: balanced_def track_append track_inner)

lemma balanced_again:
  assumes "list_all inner_event evs" and "balanced evs3"
  shows "balanced (TestAttempt s a # NewContext c # evs @
           [CloseContext c, Sleep RetryWait 5] @ evs3 @ [CloseContext c])"
proof -
  have "fst (track_contexts evs3 [] q) = []" "snd (track_contexts evs3 [] q) \<le> max q 1" for q
    using assms(2) by (simp_all add: balanced_def)
  from this[of "max p 1" for p] show ?thesis
    using assms(1) by (simp add: balanced_def track_append track_inner)
qed

lemma balanced_call_direct:
  assumes q: "quiet_step (in_context (TestAttempt s a) st) st2"
    and t: "trace st1 = trace st2" and c: "closes env"
  shows "\<exists>evs. trace (snd (finally_close (env (probes st)) (probes st) st1)) = trace st @ evs \<and>
     balanced evs"
proof -
  from quiet_stepD[OF q] obtain evs where
    "trace st2 = trace (in_context (TestAttempt s a) st) @ evs" "list_all inner_event evs" by auto
  with t c show ?thesis
    by (intro exI[of _ "TestAttempt s a # NewContext (probes st) # evs @ [CloseContext (probes st)]"])
       (simp add: balanced_direct closes_def)
qed

lemma balanced_call_again:
  assumes q: "quiet_step (in_context (TestAttempt s a) st) st2"
    and e3: "trace st3 = trace (retry_state (probes st) st2) @ evs3" "balanced evs3"
    and t: "trace st1 = trace st3" and c: "closes env"
  shows "\<exists>evs. trace (snd (finally_close (env (probes st)) (probes st) st1)) = trace st @ evs \<and>
     balanced evs"
proof -
  from quiet_stepD[OF q] obtain evs where
    e: "trace st2 = trace (in_context (TestAttempt s a) st) @ evs" "list_all inner_event evs" by auto
  from e e3 t c balanced_again[OF e(2) e3(2), of s a "probes st"] show ?thesis
    by (intro exI[of _ "TestAttempt s a # NewContext (probes st) # evs @
         [CloseContext (probes st), Sleep RetryWait 5] @ evs3 @ [CloseContext (probes st)]"])
       (simp add: closes_def)
qed

lemma tswl_balanced:
  "pages_open env \<and> closes env \<longrightarrow>
     (\<exists>evs. trace (snd (test_strategy_with_learning env s a st)) = trace st @ evs \<and> balanced evs)"
proof (rule tswl_rule[where P = "\<lambda>a st res. pages_open env \<and> closes env \<longrightarrow>
     (\<exists>evs. trace (snd res) = trace st @ evs \<and> balanced evs)"])
  fix a :: int and st :: adaptive_tester and x :: string
  show "pages_open env \<and> closes env \<longrightarrow>
     (\<exists>evs. trace (snd (Some x, entered (TestAttempt s a) st)) = trace st @ evs \<and> balanced evs)"
    by (intro impI exI[of _ "[TestAttempt s a]"]) (simp add: balanced_entry)
next
  fix a :: int and st :: adaptive_tester and x :: string
  assume "new_page_r (env (probes st)) = Some x"
  then show "pages_open env \<and> closes env \<longrightarrow>
     (\<exists>evs. trace (snd (Some x, in_context (TestAttempt s a) st)) = trace st @ evs \<and> balanced evs)"
    by (auto simp: pages_open_def)
next
  fix a :: int and st :: adaptive_tester and b ns u logs st2
  assume "probe_steps (env (probes st)) s (in_context (TestAttempt s a) st) = Classified b ns u logs st2"
  from body_quiet_step[OF this] have q: "quiet_step (in_context (TestAttempt s a) st) st2" by simp
  show "pages_open env \<and> closes env \<longrightarrow>
     (\<exists>evs. trace (snd (finally_close (env (probes st)) (probes st)
          (finish_attempt s a b u logs ns st2))) = trace st @ evs \<and> balanced evs)"
    using balanced_call_direct[OF q, of "finish_attempt s a b u logs ns st2" env] by simp
next
  fix a :: int and st :: adaptive_tester and x logs st2
  assume "probe_steps (env (probes st)) s (in_context (TestAttempt s a) st) = Raised x logs st2"
  from body_quiet_step[OF this] have q: "quiet_step (in_context (TestAttempt s a) st) st2" by simp
  show "pages_open env \<and> closes env \<longrightarrow>
     (\<exists>evs. trace (snd (finally_close (env (probes st)) (probes st)
          (record_exception s a x logs st2))) = trace st @ evs \<and> balanced evs)"
    using balanced_call_direct[OF q, of "record_exception s a x logs st2" env] by simp
next
  fix a :: int and st :: adaptive_tester and logs u st2
  assume "probe_steps (env (probes st)) s (in_context (TestAttempt s a) st) = ScopeIssue logs u st2"
  from body_quiet_step[OF this] have q: "quiet_step (in_context (TestAttempt s a) st) st2" by simp
  show "pages_open env \<and> closes env \<longrightarrow>
     (\<exists>evs. trace (snd (finally_close (env (probes st)) (probes st)
          (finish_attempt s a False u logs no_redirect_notes st2))) = trace st @ evs \<and> balanced evs)"
    using balanced_call_direct[OF q, of "finish_attempt s a False u logs no_redirect_notes st2" env]
    by simp
  fix x :: string
  show "pages_open env \<and> closes env \<longrightarrow>
     (\<exists>evs. trace (snd (finally_close (env (probes st)) (probes st)
          (record_exception s a x logs st2))) = trace st @ evs \<and> balanced evs)"
    using balanced_call_direct[OF q, of "record_exception s a x logs st2" env] by simp
next
  fix a :: int and st :: adaptive_tester and logs u st2 and st3 :: adaptive_tester
  assume ps: "probe_steps (env (probes st)) s (in_context (TestAttempt s a) st) = ScopeIssue logs u st2"
    and ih: "pages_open env \<and> closes env \<longrightarrow> (\<exists>evs. trace (snd (None :: string option, st3)) =
        trace (retry_state (probes st) st2) @ evs \<and> balanced evs)"
  from body_quiet_step[OF ps] have q: "quiet_step (in_context (TestAttempt s a) st) st2" by simp
  show "pages_open env \<and> closes env \<longrightarrow>
     (\<exists>evs. trace (snd (finally_close (env (probes st)) (probes st) st3)) = trace st @ evs \<and>
        balanced evs)"
  proof
    assume h: "pages_open env \<and> closes env"
    with ih obtain evs3 where e3: "trace st3 = trace (retry_state (probes st) st2) @ evs3" "balanced evs3"
      by auto
    from balanced_call_again[OF q e3, of st3 env] h
    show "\<exists>evs. trace (snd (finally_close (env (probes st)) (probes st) st3)) = trace st @ evs \<and>
        balanced evs"
      by simp
  qed
next
  fix a :: int and st :: adaptive_tester and logs u st2 and st3 :: adaptive_tester and x :: string
  assume ps: "probe_steps (env (probes st)) s (in_context (TestAttempt s a) st) = ScopeIssue logs u st2"
    and ih: "pages_open env \<and> closes env \<longrightarrow> (\<exists>evs. trace (snd (Some x, st3)) =
        trace (retry_state (probes st) st2) @ evs \<and> balanced evs)"
  from body_quiet_step[OF ps] have q: "quiet_step (in_context (TestAttempt s a) st) st2" by simp
  show "pages_open env \<and> closes env \<longrightarrow>
     (\<exists>evs. trace (snd (finally_close (env (probes st)) (probes st)
        (record_exception s a x logs st3))) = trace st @ evs \<and> balanced evs)"
  proof
    assume h: "pages_open env \<and> closes env"
    with ih obtain evs3 where e3: "trace st3 = trace (retry_state (probes st) st2) @ evs3" "balanced evs3"
      by auto
    from balanced_call_again[OF q e3, of "record_exception s a x logs st3" env] h
    show "\<exists>evs. trace (snd (finally_close (env (probes st)) (probes st)
        (record_exception s a x logs st3))) = trace st @ evs \<and> balanced evs"
      by simp
  qed
qed

lemma settled_append: "settled tr \<Longrightarrow> balanced evs \<Longrightarrow> settled (tr @ evs)"
  by (auto simp: settled_def balanced_def open_contexts_def peak_open_def track_append
      intro: order_trans)

lemma settled_sleep: "settled tr \<Longrightarrow> settled (tr @ [Sleep site n])"
  by (simp add: settled_def open_contexts_def peak_open_def track_append)

lemma adaptive_loop_settled:
  "pages_open env \<Longrightarrow> closes env \<Longrightarrow> settled (trace st) \<Longrightarrow>
   settled (trace (snd (adaptive_loop env n i ss st)))"
proof (induction ss arbitrary: i st)
  case Nil
  then show ?case by simp
next
  case (Cons s ss)
  obtain out st1 where t: "test_strategy_with_learning env s 1 st = (out, st1)"
    by (cases "test_strategy_with_learning env s 1 st")
  from tswl_balanced[of env s 1 st] Cons.prems(1,2) t obtain evs where
    "trace st1 = trace st @ evs" "balanced evs" by auto
  with Cons.prems(3) have s1: "settled (trace st1)" by (simp add: settled_append)
  then have "settled (trace (after_strategy n i st1))"
    by (simp add: settled_sleep)
  from Cons.IH[OF Cons.prems(1,2) this] s1 t show ?case
    by (cases out) simp_all
qed

text \<open>
  When no page creation and no close in a \<^verbatim>\<open>finally\<close> raises, a run of either script
  leaves no context open and never has two contexts open at the same time.
\<close>

lemma adaptive_contexts_closed:
  "pages_open env \<Longrightarrow> closes env \<Longrightarrow>
   open_contexts (trace (snd (run_adaptive_on env strats))) = [] \<and>
   peak_open (trace (snd (run_adaptive_on env strats))) \<le> 1"
  using adaptive_loop_settled[of env new_adaptive_tester "length strats" 0 strats]
  by (simp add: run_adaptive_on_def settled_def open_contexts_def peak_open_def)

lemma test_strategy_balanced:
  assumes "pages_open env" and "closes env"
  shows "\<exists>evs. trace (snd (test_strategy env s st)) = trace st @ evs \<and> balanced evs"
proof (cases "new_context_r (env (probes st))")
  case (Some x)
  from test_strategy_no_context[where env = env and st = st, OF this] show ?thesis
    by (intro exI[of _ "[TestStrategy s]"]) (simp add: balanced_entry)
next
  case nc: None
  from assms have np: "new_page_r (env (probes st)) = None" and cl: "close_r (env (probes st)) = None"
    by (simp_all add: pages_open_def closes_def)
  obtain out st2 where b: "basic_steps (env (probes st)) s (in_context (TestStrategy s) st) = (out, st2)"
    by (cases "basic_steps (env (probes st)) s (in_context (TestStrategy s) st)")
  from quiet_stepD[OF basic_steps_quiet[OF quiet_refl b]] obtain evs where
    e: "trace st2 = trace (in_context (TestStrategy s) st) @ evs" "list_all inner_event evs" by auto
  show ?thesis
  proof (cases out)
    case None
    with test_strategy_completes[where env = env and st = st, OF nc np] b e cl show ?thesis
      by (intro exI[of _ "TestStrategy s # NewContext (probes st) # evs @ [CloseContext (probes st)]"])
         (simp add: balanced_direct)
  next
    case (Some x)
    with test_strategy_catches[where env = env and st = st, OF nc np] b e cl show ?thesis
      by (intro exI[of _ "TestStrategy s # NewContext (probes st) # evs @ [CloseContext (probes st)]"])
         (simp add: balanced_direct)
  qed
qed

lemma run_strategies_settled:
  "pages_open env \<Longrightarrow> closes env \<Longrightarrow> settled (trace st) \<Longrightarrow>
   settled (trace (snd (run_strategies env ss st)))"
proof (induction ss arbitrary: st)
  case Nil
  then show ?case by simp
next
  case (Cons s ss)
  obtain out st1 where t: "test_strategy env s st = (out, st1)"
    by (cases "test_strategy env s st")
  from test_strategy_balanced[OF Cons.prems(1,2), of s st] t obtain evs where
    "trace st1 = trace st @ evs" "balanced evs" by auto
  with Cons.prems(3) have s1: "settled (trace st1)" by (simp add: settled_append)
  then have "settled (trace (emit (Sleep InterStrategy 2) st1))"
    by (simp add: settled_sleep)
  from Cons.IH[OF Cons.prems(1,2) this] s1 t show ?case
    by (cases out) simp_all
qed

lemma basic_contexts_closed:
  "pages_open env \<Longrightarrow> closes env \<Longrightarrow>
   open_contexts (trace (snd (run_all_tests env))) = [] \<and>
   peak_open (trace (snd (run_all_tests env))) \<le> 1"
  using run_strategies_settled[of env new_tester strategies]
  by (simp add: run_all_tests_def settled_def open_contexts_def peak_open_def)

section \<open>The claims\<close>

text \<open>
  C1, as stated, fails for the basic script: for the strategy "iframe" a page that stays
  where it is is recorded with success true, although its final URL does not contain
  "simpleswap.io".
\<close>

theorem iframe_success_without_redirect:
  "get_success (last (results (snd (test_strategy iframe_browser ''iframe'' new_tester))))
   \<and> dict_get (last (results (snd (test_strategy iframe_browser ''iframe'' new_tester)))) ''final_url'' =
       Some (JStr ''https://blinds123.github.io/simpleswap-realtime-test?strategy=iframe'')
   \<and> \<not> substr_in ''simpleswap.io'' ''https://blinds123.github.io/simpleswap-realtime-test?strategy=iframe''"
  by (simp add: iframe_call get_success_def dict_get_def basic_result_def)

text \<open>
  C1, amended. Basic script: a recorded result that has a final URL has success true
  exactly when that URL contains "simpleswap.io" or its strategy is "iframe"; a result
  without a final URL (exception path) has success false. Adaptive script, as the claim
  has it: whenever the URL read after the click equals the request URL of the attempt,
  every result the call appends has success false. The rule behind the adaptive half is
  proved with it (\<open>adaptive_success_rule\<close>): a result that has a final URL has success
  true exactly when that URL differs from the request URL and contains "simpleswap.io",
  and a result without a final URL has success false, whatever the URL read was.
\<close>

theorem success_flag_rule:
  "(\<forall>r \<in> set (results (snd (run_strategies env ss new_tester))). basic_success_rule r)
   \<and> (\<forall>r \<in> set (drop (length (results st)) (results (snd (test_strategy_with_learning env' s a st)))).
        adaptive_success_rule (deciding_browser env' (test_strategy_with_learning env' s a st)) s r
        \<and> (url_after_click (deciding_browser env' (test_strategy_with_learning env' s a st)) =
             request_url s (cache_buster (deciding_browser env' (test_strategy_with_learning env' s a st)))
           \<longrightarrow> \<not> get_success r))"
proof -
  have basic: "basic_success_rule r"
    if "r \<in> set (results (snd (run_strategies env ss new_tester)))" for r
  proof -
    from that run_strategies_results[of env ss new_tester] have "\<exists>e s. basic_entry e s r"
      by (auto simp: list_all_iff)
    then show ?thesis by (auto intro: basic_entry_rule)
  qed
  let ?res = "test_strategy_with_learning env' s a st"
  have adaptive: "adaptive_success_rule (deciding_browser env' ?res) s r"
    if r: "r \<in> set (drop (length (results st)) (results (snd ?res)))" for r
  proof -
    obtain out st' where t: "?res = (out, st')" by (cases ?res)
    from tswl_call[OF t] obtain rs where
      "results st' = results st @ rs" "list_all (adaptive_entry (env' (probes st' - 1)) s) rs"
      by metis
    with r t have "adaptive_entry (deciding_browser env' ?res) s r"
      by (simp add: deciding_browser_def list_all_iff)
    then show ?thesis by (rule adaptive_entry_rule)
  qed
  from basic adaptive show ?thesis
    by (blast dest: success_rule_no_redirect)
qed

theorem success_flag_rule_witness:
  "basic_success_rule (basic_result ''iframe'' 0
      ''https://blinds123.github.io/simpleswap-realtime-test?strategy=iframe'' [])
   \<and> adaptive_success_rule scope_error_page ''basic''
        (adaptive_result ''basic'' 2 8 False
           ''https://blinds123.github.io/simpleswap-realtime-test?strategy=basic&t=1700000000''
           [''[error] ReferenceError: workingUrl is not defined''] no_redirect_notes)
   \<and> \<not> get_success (adaptive_result ''basic'' 2 8 False
           ''https://blinds123.github.io/simpleswap-realtime-test?strategy=basic&t=1700000000''
           [''[error] ReferenceError: workingUrl is not defined''] no_redirect_notes)"
  using success_flag_rule[of iframe_browser "[''iframe'']" new_adaptive_tester retry_browser "''basic''" 1]
  by (simp add: iframe_run_results retry_call_results retry_call_probes deciding_browser_def
      retry_browser_def scope_error_urls del: run_strategies.simps)




text \<open>
  C3. A call of the adaptive test function with attempt number 1 enters the function at
  most twice (the function is total: its recursion is taken only while the attempt
  number is below 2). In a run over the script's ten strategies, every strategy label
  is attempted at most twice and labels at most two recorded results.
\<close>

theorem at_most_two_attempts:
  "length (filter (is_attempt_of s) (trace (snd (run_adaptive_tests env)))) \<le> 2
   \<and> length (filter (has_strategy s) (results (snd (run_adaptive_tests env)))) \<le> 2
   \<and> length (filter is_test_attempt
        (drop (length (trace st)) (trace (snd (test_strategy_with_learning env s' 1 st))))) \<le> 2"
proof -
  from count_list_distinct[OF strategies_distinct, of s]
  have c: "count_list strategies s \<le> 1" .
  from adaptive_loop_labels[of s env "length strategies" 0 strategies new_adaptive_tester] c
  have a: "length (filter (is_attempt_of s) (trace (snd (run_adaptive_tests env)))) \<le> 2"
    "length (filter (has_strategy s) (results (snd (run_adaptive_tests env)))) \<le> 2"
    by (simp_all add: run_adaptive_tests_def run_adaptive_on_def)
  obtain out st' where t: "test_strategy_with_learning env s' 1 st = (out, st')"
    by (cases "test_strategy_with_learning env s' 1 st")
  from tswl_call[OF t] obtain evs where "trace st' = trace st @ evs" "call_trace s' 1 evs"
    by metis
  with t call_trace_bound[of s' evs]
  have "length (filter is_test_attempt
        (drop (length (trace st)) (trace (snd (test_strategy_with_learning env s' 1 st))))) \<le> 2"
    by simp
  with a show ?thesis by simp
qed

theorem at_most_two_attempts_witness:
  "length (filter (is_attempt_of ''basic'') (trace (snd (run_adaptive_tests retry_browser)))) \<le> 2
   \<and> length (filter is_test_attempt
        (trace (snd (test_strategy_with_learning retry_browser ''basic'' 1 new_adaptive_tester)))) = 2"
  using at_most_two_attempts[of "''basic''" retry_browser new_adaptive_tester "''basic''"]
  by (simp add: retry_call_trace)

text \<open>
  C4, as stated, fails: an exception raised when the browsing context is created, before
  the \<^verbatim>\<open>try\<close>, or when it is closed in the \<^verbatim>\<open>finally\<close>, is outside the handler and leaves the
  run, in both scripts.
\<close>

theorem context_failure_leaves_run:
  "fst (run_all_tests no_context_browser) = Some ''Browser has been closed''
   \<and> fst (run_adaptive_tests no_context_browser) = Some ''Browser has been closed''
   \<and> fst (run_all_tests no_close_browser) = Some ''Connection closed''
   \<and> fst (run_adaptive_tests no_close_browser) = Some ''Connection closed''"
proof -
  have a: "fst (run_all_tests no_context_browser) = Some ''Browser has been closed''"
    "fst (run_adaptive_tests no_context_browser) = Some ''Browser has been closed''"
    by (simp_all add: run_all_tests_def run_adaptive_tests_def run_adaptive_on_def strategies_def
        test_strategy_def tswl_unfold no_context_browser_def swap_page_def calm_page_def Let_def)
  have "fst (test_strategy no_close_browser ''basic'' new_tester) = Some ''Connection closed''"
    using test_strategy_outcome[of no_close_browser new_tester "''basic''"] by simp
  then have b: "fst (run_all_tests no_close_browser) = Some ''Connection closed''"
    by (cases "test_strategy no_close_browser ''basic'' new_tester")
       (simp add: run_all_tests_def strategies_def)
  have "fst (test_strategy_with_learning no_close_browser ''basic'' 1 new_adaptive_tester) =
      Some ''Connection closed''"
    using tswl_outcome[of no_close_browser new_adaptive_tester "''basic''" 1] by simp
  then have c: "fst (run_adaptive_tests no_close_browser) = Some ''Connection closed''"
    by (cases "test_strategy_with_learning no_close_browser ''basic'' 1 new_adaptive_tester")
       (simp add: run_adaptive_tests_def run_adaptive_on_def strategies_def)
  from a b c show ?thesis by simp
qed

text \<open>
  C4, amended. Every exception that leaves the body of the \<^verbatim>\<open>try\<close> of a probe attempt is
  caught by that attempt's \<^verbatim>\<open>except\<close> and turned into an appended result with success false
  and the exception's text as error: in the basic script whatever \<open>basic_steps\<close> raises,
  in the adaptive script whatever \<open>probe_steps\<close> raises, the close before the retry, and
  an exception that leaves the retry's call. After that the call returns unless the close
  of its \<^verbatim>\<open>finally\<close> raises. What an inner handler swallows never leaves the body: the
  monitoring of the adaptive script raises only what its screenshot raises. Context
  creation, page creation and the close of the \<^verbatim>\<open>finally\<close> stand outside the handler: when
  none of them raises, the test function always returns, the loop goes through all
  strategies (one result each) and no exception leaves the run.
\<close>

theorem caught_inside_try:
  "(acquires env \<and> closes env \<longrightarrow>
      fst (run_strategies env ss st) = None
      \<and> length (results (snd (run_strategies env ss st))) = length (results st) + length ss
      \<and> fst (adaptive_loop env n i ss ast) = None
      \<and> length (results (snd (adaptive_loop env n i ss ast))) = length (results ast) + length ss)
   \<and> (new_context_r (env (probes st)) = None \<and> new_page_r (env (probes st)) = None \<and>
        basic_steps (env (probes st)) s (in_context (TestStrategy s) st) = (Some x, st2) \<longrightarrow>
        results (snd (test_strategy env s st)) = results st @ [basic_exception_result s (ticks st2) x]
        \<and> fst (test_strategy env s st) = close_r (env (probes st)))
   \<and> (new_context_r (env (probes ast)) = None \<and> new_page_r (env (probes ast)) = None \<and>
        probe_steps (env (probes ast)) s (in_context (TestAttempt s a) ast) = Raised x logs ast2 \<longrightarrow>
        results (snd (test_strategy_with_learning env s a ast)) =
          results ast @ [adaptive_exception_result s a (Suc (ticks ast2)) x logs]
        \<and> fst (test_strategy_with_learning env s a ast) = close_r (env (probes ast)))
   \<and> (new_context_r (env (probes ast)) = None \<and> new_page_r (env (probes ast)) = None \<and>
        probe_steps (env (probes ast)) s (in_context (TestAttempt s a) ast) = ScopeIssue logs u ast2 \<and>
        a < 2 \<and> retry_close_r (env (probes ast)) = Some x \<longrightarrow>
        results (snd (test_strategy_with_learning env s a ast)) =
          results ast @ [adaptive_exception_result s a (Suc (ticks ast2)) x logs]
        \<and> fst (test_strategy_with_learning env s a ast) = close_r (env (probes ast)))
   \<and> (new_context_r (env (probes ast)) = None \<and> new_page_r (env (probes ast)) = None \<and>
        probe_steps (env (probes ast)) s (in_context (TestAttempt s a) ast) = ScopeIssue logs u ast2 \<and>
        a < 2 \<and> retry_close_r (env (probes ast)) = None \<and>
        test_strategy_with_learning env s (a + 1) (retry_state (probes ast) ast2) = (Some x, ast3) \<longrightarrow>
        results (snd (test_strategy_with_learning env s a ast)) =
          results ast3 @ [adaptive_exception_result s a (Suc (ticks ast3)) x logs]
        \<and> fst (test_strategy_with_learning env s a ast) = close_r (env (probes ast)))
   \<and> fst (monitor_simpleswap_with_learning e s ast) = screenshot_r e
   \<and> dict_get (basic_exception_result s t x) ''success'' = Some (JBool False)
   \<and> dict_get (basic_exception_result s t x) ''error'' = Some (JStr x)
   \<and> dict_get (adaptive_exception_result s a t x logs) ''success'' = Some (JBool False)
   \<and> dict_get (adaptive_exception_result s a t x logs) ''error'' = Some (JStr x)"
proof -
  have run: "fst (run_strategies env ss st) = None
      \<and> length (results (snd (run_strategies env ss st))) = length (results st) + length ss
      \<and> fst (adaptive_loop env n i ss ast) = None
      \<and> length (results (snd (adaptive_loop env n i ss ast))) = length (results ast) + length ss"
    if h: "acquires env \<and> closes env"
  proof -
    from h have k: "\<forall>k. new_context_r (env k) = None \<and> new_page_r (env k) = None \<and>
        close_r (env k) = None"
      by (simp add: acquires_def closes_def)
    note r = run_strategies_complete[OF k, of ss st] adaptive_loop_returns[OF k, of n i ss ast]
    from h r(2) have "length (results (snd (adaptive_loop env n i ss ast))) =
        length (results ast) + length ss"
      by (intro adaptive_loop_length) simp_all
    with r show ?thesis by simp
  qed
  have basic: "results (snd (test_strategy env s st)) = results st @ [basic_exception_result s (ticks st2) x]
        \<and> fst (test_strategy env s st) = close_r (env (probes st))"
    if h: "new_context_r (env (probes st)) = None \<and> new_page_r (env (probes st)) = None \<and>
        basic_steps (env (probes st)) s (in_context (TestStrategy s) st) = (Some x, st2)"
  proof -
    from h have b: "basic_steps (env (probes st)) s (in_context (TestStrategy s) st) = (Some x, st2)"
      by simp
    from quiet_stepD[OF basic_steps_quiet[OF quiet_refl b]] have "results st2 = results st"
      by simp
    with h test_strategy_catches[where env = env and st = st and s = s and x = x and ?st2.0 = st2]
    show ?thesis by simp
  qed
  have raised: "results (snd (test_strategy_with_learning env s a ast)) =
          results ast @ [adaptive_exception_result s a (Suc (ticks ast2)) x logs]
        \<and> fst (test_strategy_with_learning env s a ast) = close_r (env (probes ast))"
    if h: "new_context_r (env (probes ast)) = None \<and> new_page_r (env (probes ast)) = None \<and>
        probe_steps (env (probes ast)) s (in_context (TestAttempt s a) ast) = Raised x logs ast2"
  proof -
    from h have p: "probe_steps (env (probes ast)) s (in_context (TestAttempt s a) ast) = Raised x logs ast2"
      by simp
    from body_quiet_step[OF p] have "quiet_step (in_context (TestAttempt s a) ast) ast2" by simp
    from quiet_stepD[OF this] have "results ast2 = results ast" by simp
    with h tswl_raised[where env = env and st = ast and s = s and a = a and x = x and logs = logs
        and ?st2.0 = ast2]
    show ?thesis by simp
  qed
  have rclose: "results (snd (test_strategy_with_learning env s a ast)) =
          results ast @ [adaptive_exception_result s a (Suc (ticks ast2)) x logs]
        \<and> fst (test_strategy_with_learning env s a ast) = close_r (env (probes ast))"
    if h: "new_context_r (env (probes ast)) = None \<and> new_page_r (env (probes ast)) = None \<and>
        probe_steps (env (probes ast)) s (in_context (TestAttempt s a) ast) = ScopeIssue logs u ast2 \<and>
        a < 2 \<and> retry_close_r (env (probes ast)) = Some x"
  proof -
    from h have p: "probe_steps (env (probes ast)) s (in_context (TestAttempt s a) ast) = ScopeIssue logs u ast2"
      by simp
    from body_quiet_step[OF p] have "quiet_step (in_context (TestAttempt s a) ast) ast2" by simp
    from quiet_stepD[OF this] have "results ast2 = results ast" by simp
    with h tswl_retry_close[where env = env and st = ast and s = s and a = a and x = x
        and logs = logs and u = u and ?st2.0 = ast2]
    show ?thesis by simp
  qed
  have rraise: "results (snd (test_strategy_with_learning env s a ast)) =
          results ast3 @ [adaptive_exception_result s a (Suc (ticks ast3)) x logs]
        \<and> fst (test_strategy_with_learning env s a ast) = close_r (env (probes ast))"
    if h: "new_context_r (env (probes ast)) = None \<and> new_page_r (env (probes ast)) = None \<and>
        probe_steps (env (probes ast)) s (in_context (TestAttempt s a) ast) = ScopeIssue logs u ast2 \<and>
        a < 2 \<and> retry_close_r (env (probes ast)) = None \<and>
        test_strategy_with_learning env s (a + 1) (retry_state (probes ast) ast2) = (Some x, ast3)"
    using h tswl_retry_raises[where env = env and st = ast and s = s and a = a and x = x
        and logs = logs and u = u and ?st2.0 = ast2 and ?st3.0 = ast3]
    by simp
  from run basic raised rclose rraise show ?thesis
    by (simp add: exception_result_fields monitor_learning_outcome)
qed

theorem caught_inside_try_witness:
  "acquires click_fails_browser \<and> closes click_fails_browser
   \<and> fst (run_strategies click_fails_browser [''basic'', ''iframe''] new_tester) = None
   \<and> length (results (snd (run_strategies click_fails_browser [''basic'', ''iframe''] new_tester))) = 2
   \<and> fst (adaptive_loop click_fails_browser 2 0 [''basic'', ''iframe''] new_adaptive_tester) = None
   \<and> length (results (snd (adaptive_loop click_fails_browser 2 0 [''basic'', ''iframe''] new_adaptive_tester))) = 2
   \<and> basic_steps (click_fails_browser 0) ''basic'' (in_context (TestStrategy ''basic'') new_tester) =
       (Some ''Timeout 30000ms exceeded'',
        emit (Sleep AfterSelector 2) (in_context (TestStrategy ''basic'') new_tester))
   \<and> results (snd (test_strategy click_fails_browser ''basic'' new_tester)) =
       [basic_exception_result ''basic'' 0 ''Timeout 30000ms exceeded'']
   \<and> fst (test_strategy click_fails_browser ''basic'' new_tester) = None
   \<and> results (snd (test_strategy_with_learning click_fails_browser ''basic'' 1 new_adaptive_tester)) =
       [adaptive_exception_result ''basic'' 1 2 ''Timeout 30000ms exceeded'' []]
   \<and> fst (test_strategy_with_learning click_fails_browser ''basic'' 1 new_adaptive_tester) = None
   \<and> retry_close_r (stuck_retry_browser 0) = Some ''Connection closed''
   \<and> results (snd (test_strategy_with_learning stuck_retry_browser ''basic'' 1 new_adaptive_tester)) =
       [adaptive_exception_result ''basic'' 1 5 ''Connection closed''
          [''[error] ReferenceError: workingUrl is not defined'']]
   \<and> fst (test_strategy_with_learning stuck_retry_browser ''basic'' 1 new_adaptive_tester) = None
   \<and> new_page_r (leaky_browser 1) = Some ''Target page, context or browser has been closed''
   \<and> results (snd (test_strategy_with_learning leaky_browser ''basic'' 1 new_adaptive_tester)) =
       [adaptive_exception_result ''basic'' 1 5 ''Target page, context or browser has been closed''
          [''[error] ReferenceError: workingUrl is not defined'']]
   \<and> fst (test_strategy_with_learning leaky_browser ''basic'' 1 new_adaptive_tester) = None"
  using caught_inside_try[of click_fails_browser "[''basic'', ''iframe'']" new_tester 2 0
      new_adaptive_tester "''basic''" "''Timeout 30000ms exceeded''"
      "emit (Sleep AfterSelector 2) (in_context (TestStrategy ''basic'') new_tester)"
      1 "[]"
      "log_insight ''No debug output in basic - may indicate loading issue''
         (wait_for_cache_update 0 (in_context (TestAttempt ''basic'' 1) new_adaptive_tester))"]
    caught_inside_try[of stuck_retry_browser "[]" new_tester 0 0
      new_adaptive_tester "''basic''" "''Connection closed''" new_tester 1
      "[''[error] ReferenceError: workingUrl is not defined'']"
      "scope_issue_state (in_context (TestAttempt ''basic'' 1) new_adaptive_tester)"
      "''https://blinds123.github.io/simpleswap-realtime-test?strategy=basic&t=1700000000''"]
    caught_inside_try[of leaky_browser "[]" new_tester 0 0
      new_adaptive_tester "''basic''" "''Target page, context or browser has been closed''" new_tester 1
      "[''[error] ReferenceError: workingUrl is not defined'']"
      "scope_issue_state (in_context (TestAttempt ''basic'' 1) new_adaptive_tester)"
      "''https://blinds123.github.io/simpleswap-realtime-test?strategy=basic&t=1700000000''"
      "in_context (TestAttempt ''basic'' 2)
        (retry_state 0 (scope_issue_state (in_context (TestAttempt ''basic'' 1) new_adaptive_tester)))"]
    click_fails_acquires click_fails_closes
  by (simp add: click_fails_basic_steps click_fails_probe_steps stuck_retry_steps
      scope_issue_steps leaky_retry_call eval_nat_numeral
      del: run_strategies.simps adaptive_loop.simps)

text \<open>
  C5, on the adaptive script: when the page of the retry cannot be created, the context
  of the retry (number 1) is never closed by the test function; the next strategy opens
  its context while that one is still open, and it is still open when the loop over the
  strategies ends.
\<close>

theorem leaked_context_after_failed_retry:
  "fst (run_adaptive_on leaky_browser [''basic'', ''iframe'']) = None
   \<and> open_contexts (trace (snd (run_adaptive_on leaky_browser [''basic'', ''iframe'']))) = [1]
   \<and> peak_open (trace (snd (run_adaptive_on leaky_browser [''basic'', ''iframe'']))) = 2"
  by (simp add: leaky_run_returns leaky_run_trace open_contexts_def peak_open_def)

text \<open>
  C6, as stated, fails for the basic script: its screenshot call passes no
  \<open>full_page\<close> argument.
\<close>

theorem basic_screenshot_without_full_page:
  "fst (monitor_simpleswap_page swap_page ''basic'' new_tester) = None
   \<and> last (trace (snd (monitor_simpleswap_page swap_page ''basic'' new_tester))) =
       Screenshot ''/tmp/simpleswap_basic_1700000020.png'' None"
  using monitor_page_screenshot[of swap_page "''basic''" new_tester]
  by (simp add: shot_time_text)

text \<open>
  C6, amended. In the adaptive script the monitoring loop always completes, and unless
  the screenshot call itself raises, the last thing monitoring does is to write a
  screenshot with \<open>full_page=True\<close> to \<open>/tmp/simpleswap_{strategy}_{unixtime}.png\<close>. In the
  basic script the same holds when no unguarded element query of the loop raises,
  with a screenshot call that passes no \<open>full_page\<close> argument.
\<close>

theorem screenshot_after_monitoring:
  "(screenshot_r e = None \<longrightarrow>
      fst (monitor_simpleswap_with_learning e s ast) = None \<and>
      last (trace (snd (monitor_simpleswap_with_learning e s ast))) =
        Screenshot (''/tmp/simpleswap_'' @ s @ ''_'' @ str_of_int (shot_time e) @ ''.png'') (Some True))
   \<and> ((\<forall>i < 10. query_r (polls e i) = None) \<and> screenshot_r e = None \<longrightarrow>
      fst (monitor_simpleswap_page e s st) = None \<and>
      last (trace (snd (monitor_simpleswap_page e s st))) =
        Screenshot (''/tmp/simpleswap_'' @ s @ ''_'' @ str_of_int (shot_time e) @ ''.png'') None)"
  using monitor_learning_screenshot[of e s ast] monitor_page_screenshot[of e s st]
  by blast

theorem screenshot_after_monitoring_witness:
  "screenshot_r swap_page = None
   \<and> last (trace (snd (monitor_simpleswap_with_learning swap_page ''withProvider'' new_adaptive_tester))) =
        Screenshot ''/tmp/simpleswap_withProvider_1700000020.png'' (Some True)
   \<and> last (trace (snd (monitor_simpleswap_page swap_page ''withProvider'' new_tester))) =
        Screenshot ''/tmp/simpleswap_withProvider_1700000020.png'' None"
  using screenshot_after_monitoring[of swap_page "''withProvider''" new_adaptive_tester new_tester]
  by (simp add: shot_time_text)

text \<open>
  C7, as stated, fails: in a monitoring phase whose page text names MoonPay (and not
  Mercuryo) in every iteration, the provider flag is still unset when the loop ends.
\<close>

theorem moonpay_alone_leaves_flag_unset:
  "polled_text (polls moonpay_page 0) = Some ''<p>Pay with MoonPay</p>''
   \<and> substr_in ''moonpay'' (lower ''<p>Pay with MoonPay</p>'')
   \<and> \<not> fst (snd (monitor_flags moonpay_page ''basic'' new_adaptive_tester))"
proof -
  have "\<not> names_mercuryo (polls moonpay_page i)" for i
    by (simp add: names_mercuryo_def moonpay_page_polls moonpay_text_lower)
  then show ?thesis
    by (simp add: monitor_flags_provider moonpay_page_polls moonpay_text_lower)
qed

text \<open>
  C7, amended. When the monitoring loop of the adaptive script ends, the provider flag
  is set exactly when one of the 15 iterations got to read the page text and that text
  contains "mercuryo" in any letter case; in particular such an iteration sets it.
  A text that names MoonPay does not set the flag.
\<close>

theorem provider_flag_rule:
  "(fst (snd (monitor_flags e s st)) \<longleftrightarrow> (\<exists>i < 15. names_mercuryo (polls e i)))
   \<and> (i < 15 \<and> polled_text (polls e i) = Some t \<and> substr_in ''mercuryo'' (lower t)
        \<longrightarrow> fst (snd (monitor_flags e s st)))"
proof -
  have "names_mercuryo (polls e i)"
    if "polled_text (polls e i) = Some t" "substr_in ''mercuryo'' (lower t)"
    using that by (simp add: names_mercuryo_def)
  then show ?thesis
    unfolding monitor_flags_provider by blast
qed

theorem provider_flag_rule_witness:
  "(3::nat) < 15 \<and> polled_text (polls mercuryo_page 3) = Some ''<b>Mercuryo</b>''
   \<and> substr_in ''mercuryo'' (lower ''<b>Mercuryo</b>'')
   \<and> fst (snd (monitor_flags mercuryo_page ''basic'' new_adaptive_tester))"
  using provider_flag_rule[of mercuryo_page "''basic''" new_adaptive_tester 3 "''<b>Mercuryo</b>''",
      THEN conjunct2]
  by (simp add: mercuryo_page_poll mercuryo_text_lower)

text \<open>
  C8, on the basic script: in a run over the script's ten strategies in which nothing
  raises, the delay between strategies is slept ten times, the last time after the
  final strategy.
\<close>

theorem basic_sleeps_after_last_strategy:
  "length strategies = 10
   \<and> fst (run_all_tests swap_browser) = None
   \<and> length (filter is_inter_sleep (trace (snd (run_all_tests swap_browser)))) = 10
   \<and> last (trace (snd (run_all_tests swap_browser))) = Sleep InterStrategy 2"
proof -
  have l: "length strategies = 10" by (simp add: strategies_def)
  from run_strategies_complete[OF swap_browser_acquires, of strategies new_tester] l
  have c: "fst (run_all_tests swap_browser) = None"
    "length (filter is_inter_sleep (trace (snd (run_all_tests swap_browser)))) = 10"
    by (simp_all add: run_all_tests_def)
  have "strategies \<noteq> []" by (simp add: strategies_def)
  from run_strategies_last[OF this, of swap_browser new_tester] c(1)
  have "last (trace (snd (run_all_tests swap_browser))) = Sleep InterStrategy 2"
    by (simp add: run_all_tests_def)
  with l c show ?thesis by simp
qed

text \<open>
  C9. The result appended on the exception path has exactly the fields strategy,
  (attempt,) timestamp, success, error, console_logs and notes, and so no final_url:
  this holds of the dict built by either \<^verbatim>\<open>except\<close> branch, and that dict is what the test
  function appends last when the body of its \<^verbatim>\<open>try\<close> raises.
\<close>

theorem exception_results_lack_final_url:
  "dict_keys (basic_exception_result s t x) =
     [''strategy'', ''timestamp'', ''success'', ''error'', ''console_logs'', ''notes'']
   \<and> dict_get (basic_exception_result s t x) ''final_url'' = None
   \<and> dict_keys (adaptive_exception_result s a t x logs) =
     [''strategy'', ''attempt'', ''timestamp'', ''success'', ''error'', ''console_logs'', ''notes'']
   \<and> dict_get (adaptive_exception_result s a t x logs) ''final_url'' = None
   \<and> (new_context_r (env (probes st)) = None \<and> new_page_r (env (probes st)) = None \<and>
        basic_steps (env (probes st)) s (in_context (TestStrategy s) st) = (Some x, st2) \<longrightarrow>
        last (results (snd (test_strategy env s st))) = basic_exception_result s (ticks st2) x)
   \<and> (new_context_r (env (probes ast)) = None \<and> new_page_r (env (probes ast)) = None \<and>
        probe_steps (env (probes ast)) s (in_context (TestAttempt s a) ast) = Raised x logs ast2 \<longrightarrow>
        last (results (snd (test_strategy_with_learning env s a ast))) =
          adaptive_exception_result s a (Suc (ticks ast2)) x logs)"
proof -
  have b: "last (results (snd (test_strategy env s st))) = basic_exception_result s (ticks st2) x"
    if "new_context_r (env (probes st)) = None" "new_page_r (env (probes st)) = None"
      "basic_steps (env (probes st)) s (in_context (TestStrategy s) st) = (Some x, st2)"
    using test_strategy_catches[where env = env and st = st, OF that] by simp
  have a: "last (results (snd (test_strategy_with_learning env s a ast))) =
          adaptive_exception_result s a (Suc (ticks ast2)) x logs"
    if "new_context_r (env (probes ast)) = None" "new_page_r (env (probes ast)) = None"
      "probe_steps (env (probes ast)) s (in_context (TestAttempt s a) ast) = Raised x logs ast2"
    using tswl_raised[where env = env and st = ast, OF that] by simp
  from a b show ?thesis
    by (simp add: exception_result_fields)
qed

theorem exception_results_lack_final_url_witness:
  "last (results (snd (test_strategy click_fails_browser ''basic'' new_tester))) =
     basic_exception_result ''basic'' 0 ''Timeout 30000ms exceeded''
   \<and> dict_get (basic_exception_result ''basic'' 0 ''Timeout 30000ms exceeded'') ''final_url'' = None
   \<and> last (results (snd (test_strategy_with_learning click_fails_browser ''basic'' 1 new_adaptive_tester))) =
     adaptive_exception_result ''basic'' 1 2 ''Timeout 30000ms exceeded'' []
   \<and> dict_get (adaptive_exception_result ''basic'' 1 2 ''Timeout 30000ms exceeded'' []) ''final_url'' = None"
  using exception_results_lack_final_url[of "''basic''" 0 "''Timeout 30000ms exceeded''" 1 "[]"
      click_fails_browser new_tester
      "emit (Sleep AfterSelector 2) (in_context (TestStrategy ''basic'') new_tester)"
      new_adaptive_tester
      "log_insight ''No debug output in basic - may indicate loading issue''
         (wait_for_cache_update 0 (in_context (TestAttempt ''basic'' 1) new_adaptive_tester))"]
  by (simp add: click_fails_basic_steps click_fails_probe_steps eval_nat_numeral exception_result_fields)

text \<open>
  C10. The analysis recommends fixing the initialisation of \<open>workingUrl\<close> exactly when some
  logged insight is the text "JavaScript variable scope issue detected", and the popup
  window exactly when some logged insight is the text "CSP blocks iframe embedding"
  (list membership is equality of the whole text). Logging the findings of
  \<open>analyze_console_logs\<close>, which all start with "Found: ", never changes the
  recommendations.
\<close>

theorem recommendations_by_exact_match:
  "(''Fix workingUrl variable initialization'' \<in> set (recommendations (final_analysis st))
      \<longleftrightarrow> (\<exists>i \<in> set (learned_insights st). insight i = ''JavaScript variable scope issue detected''))
   \<and> (''Use popup window instead of iframe'' \<in> set (recommendations (final_analysis st))
      \<longleftrightarrow> (\<exists>i \<in> set (learned_insights st). insight i = ''CSP blocks iframe embedding''))
   \<and> recommendations (final_analysis (fold log_insight (analyze_console_logs logs) st)) =
       recommendations (final_analysis st)"
proof (intro conjI)
  show "''Fix workingUrl variable initialization'' \<in> set (recommendations (final_analysis st))
      \<longleftrightarrow> (\<exists>i \<in> set (learned_insights st). insight i = ''JavaScript variable scope issue detected'')"
    by (auto simp: final_analysis_recommendations image_iff; metis)
  show "''Use popup window instead of iframe'' \<in> set (recommendations (final_analysis st))
      \<longleftrightarrow> (\<exists>i \<in> set (learned_insights st). insight i = ''CSP blocks iframe embedding'')"
    by (auto simp: final_analysis_recommendations image_iff; metis)
  have m: "insight ` set (learned_insights (fold log_insight (analyze_console_logs logs) st)) =
      insight ` set (learned_insights st) \<union> set (analyze_console_logs logs)"
    using fold_log_insight_texts[of "analyze_console_logs logs" st]
    by (metis set_append set_map)
  have "''JavaScript variable scope issue detected'' \<notin> set (analyze_console_logs logs)"
    "''CSP blocks iframe embedding'' \<notin> set (analyze_console_logs logs)"
    using findings_are_marked[of _ logs] by auto
  with m show "recommendations (final_analysis (fold log_insight (analyze_console_logs logs) st)) =
       recommendations (final_analysis st)"
    by (simp add: final_analysis_recommendations)
qed

theorem recommendations_by_exact_match_witness:
  "''Use popup window instead of iframe'' \<notin>
     set (recommendations (final_analysis
       (fold log_insight (analyze_console_logs [''Refused to frame https://simpleswap.io'']) new_adaptive_tester)))
   \<and> analyze_console_logs [''Refused to frame https://simpleswap.io''] = [''Found: CSP blocks iframe embedding'']"
proof -
  have "analyze_console_logs [''Refused to frame https://simpleswap.io''] = [''Found: CSP blocks iframe embedding'']"
    by (simp add: analyze_console_logs_def error_patterns_def)
  moreover have "recommendations (final_analysis new_adaptive_tester) = []"
    by (simp add: final_analysis_recommendations)
  ultimately show ?thesis
    using recommendations_by_exact_match[of new_adaptive_tester "[''Refused to frame https://simpleswap.io'']"]
    by simp
qed

end
